theory Spec2Isabelle
  imports Complex_Main
begin

chapter \<open>Soklin wallet-monitoring pipeline: a shallow embedding\<close>

text \<open>
  The backend services of the repository, as HOL functions:
  \<^item> \<open>Validators.isValidEthereumAddress\<close> (utils/validators.ts) with the address
    checksum of the ethers library it calls;
  \<^item> \<open>WebSocketService\<close> (the broadcast hub): subscribe, rate limit, score broadcast;
  \<^item> \<open>FeatureProcessor\<close> (utils/helpers.ts) and \<open>ScoringService\<close>;
  \<^item> \<open>ContractService.flagWallet\<close> and \<open>WalletMonitorService\<close> (the coordinator).

  Conventions. A JavaScript \<open>number\<close> that is finite wherever it arises (a timestamp, a
  count, a feature) is a \<open>real\<close>; one that need not be (an output of the classifier, a
  score) is a \<open>jsnumber\<close>, a real or one of \<open>NaN\<close> and the infinities. The rounding of
  the 64-bit format is not modelled, so where the rounding error of a double decides a
  comparison (a score difference of 4.999999999999993 against 5, a decimal tie under
  \<open>toFixed\<close>) the exact value decides here. \<open>Date.now()\<close> is a parameter \<open>now\<close> in
  milliseconds; a \<open>Map\<close> is a partial function or, where iteration order is observable, an
  association list; a \<open>Set\<close> of strings is a duplicate-free list in insertion order; an
  exception is the \<open>Inl\<close> of a sum; what a service emits on a socket or calls on a
  collaborator is returned as a list of effects. Random message ids and log lines are
  left out.
\<close>

section \<open>Address codec\<close>

subsection \<open>Keccak-256, the hash behind the address checksum of \<open>ethers.getAddress\<close>\<close>

text \<open>
  \<open>ethers\<close> is a dependency of the repository, not part of it. Its address checksum
  (EIP-55) is written out here from the Keccak reference so that addresses can be
  evaluated: the state is 25 lanes of 64 bits, a lane is the list of its bits, least
  significant first.
\<close>

type_synonym lane = "bool list"

fun bits_of :: "nat \<Rightarrow> int \<Rightarrow> bool list" where
  "bits_of 0 n = []"
| "bits_of (Suc k) n = odd n # bits_of k (n div 2)"

fun int_of_bits :: "bool list \<Rightarrow> int" where
  "int_of_bits [] = 0"
| "int_of_bits (b # bs) = (if b then 1 else 0) + 2 * int_of_bits bs"

definition xorl :: "lane \<Rightarrow> lane \<Rightarrow> lane" where
  "xorl a b = map2 (\<lambda>p q. p \<noteq> q) a b"

definition andnl :: "lane \<Rightarrow> lane \<Rightarrow> lane" where
  "andnl a b = map2 (\<lambda>p q. \<not> p \<and> q) a b"

definition rotl :: "nat \<Rightarrow> lane \<Rightarrow> lane" where
  "rotl r a = drop (64 - r) a @ take (64 - r) a"

definition keccak_RC :: "int list" where
  "keccak_RC =
    [0x0000000000000001, 0x0000000000008082, 0x800000000000808A, 0x8000000080008000,
     0x000000000000808B, 0x0000000080000001, 0x8000000080008081, 0x8000000000008009,
     0x000000000000008A, 0x0000000000000088, 0x0000000080008009, 0x000000008000000A,
     0x000000008000808B, 0x800000000000008B, 0x8000000000008089, 0x8000000000008003,
     0x8000000000008002, 0x8000000000000080, 0x000000000000800A, 0x800000008000000A,
     0x8000000080008081, 0x8000000000008080, 0x0000000080000001, 0x8000000080008008]"

text \<open>Rotation offsets of the lanes, lane \<open>(x, y)\<close> at index \<open>x + 5 * y\<close>.\<close>

definition keccak_rot :: "nat list" where
  "keccak_rot =
    [0, 1, 62, 28, 27,
     36, 44, 6, 55, 20,
     3, 10, 43, 25, 39,
     41, 45, 15, 21, 8,
     18, 2, 61, 56, 14]"

definition theta_c :: "lane list \<Rightarrow> lane list" where
  "theta_c a =
    map (\<lambda>x. xorl (a ! x) (xorl (a ! (x + 5)) (xorl (a ! (x + 10))
              (xorl (a ! (x + 15)) (a ! (x + 20)))))) [0..<5]"

definition theta_d :: "lane list \<Rightarrow> lane list" where
  "theta_d c = map (\<lambda>x. xorl (c ! ((x + 4) mod 5)) (rotl 1 (c ! ((x + 1) mod 5)))) [0..<5]"

definition theta :: "lane list \<Rightarrow> lane list" where
  "theta a = map2 (\<lambda>i l. xorl l (theta_d (theta_c a) ! (i mod 5))) [0..<25] a"

text \<open>
  \<open>rho\<close> rotates lane \<open>(x, y)\<close> by its offset and \<open>pi\<close> moves it to \<open>(y, 2x + 3y)\<close>; read
  from the target, lane \<open>(X, Y)\<close> comes from \<open>((X + 3Y) mod 5, X)\<close>.
\<close>

definition rho_pi :: "lane list \<Rightarrow> lane list" where
  "rho_pi a =
    map (\<lambda>i. rotl (keccak_rot ! ((i mod 5 + 3 * (i div 5)) mod 5 + 5 * (i mod 5)))
                   (a ! ((i mod 5 + 3 * (i div 5)) mod 5 + 5 * (i mod 5)))) [0..<25]"

definition chi :: "lane list \<Rightarrow> lane list" where
  "chi b =
    map (\<lambda>i. xorl (b ! i) (andnl (b ! ((i mod 5 + 1) mod 5 + 5 * (i div 5)))
                                    (b ! ((i mod 5 + 2) mod 5 + 5 * (i div 5))))) [0..<25]"

definition iota :: "int \<Rightarrow> lane list \<Rightarrow> lane list" where
  "iota rc a = xorl (hd a) (bits_of 64 rc) # tl a"

definition keccak_round :: "lane list \<Rightarrow> int \<Rightarrow> lane list" where
  "keccak_round a rc = iota rc (chi (rho_pi (theta a)))"

definition keccak_f :: "lane list \<Rightarrow> lane list" where
  "keccak_f a = foldl keccak_round a keccak_RC"

fun chunks :: "nat \<Rightarrow> 'a list \<Rightarrow> 'a list list" where
  "chunks n [] = []"
| "chunks n (x # xs) = (if n = 0 then [] else take n (x # xs) # chunks n (drop n (x # xs)))"

text \<open>Keccak padding (first pad byte 1, last pad byte 128) to the rate of 136 bytes.\<close>

definition keccak_pad :: "int list \<Rightarrow> int list" where
  "keccak_pad msg =
    (let q = 136 - (length msg mod 136)
     in if q = 1 then msg @ [0x81]
        else msg @ [0x01] @ replicate (q - 2) 0 @ [0x80])"

definition block_lanes :: "int list \<Rightarrow> lane list" where
  "block_lanes block =
    map (\<lambda>bs. concat (map (bits_of 8) bs)) (chunks 8 block) @ replicate 8 (replicate 64 False)"

definition absorb :: "lane list \<Rightarrow> int list \<Rightarrow> lane list" where
  "absorb st block = keccak_f (map2 xorl st (block_lanes block))"

definition keccak256 :: "int list \<Rightarrow> int list" where
  "keccak256 msg =
    map int_of_bits (chunks 8 (concat (take 4
      (foldl absorb (replicate 25 (replicate 64 False)) (chunks 136 (keccak_pad msg))))))"

subsection \<open>Strings and \<open>ethers.getAddress\<close>\<close>

text \<open>
  \<open>String.prototype.toLowerCase\<close> and \<open>toUpperCase\<close> on the ASCII range (addresses,
  risk levels and blacklist entries are ASCII).
\<close>

definition toLowerCaseChar :: "char \<Rightarrow> char" where
  "toLowerCaseChar c =
    (let n = (of_char c :: nat) in if 65 \<le> n \<and> n \<le> 90 then char_of (n + 32) else c)"

definition toUpperCaseChar :: "char \<Rightarrow> char" where
  "toUpperCaseChar c =
    (let n = (of_char c :: nat) in if 97 \<le> n \<and> n \<le> 122 then char_of (n - 32) else c)"

definition toLowerCase :: "string \<Rightarrow> string" where
  "toLowerCase s = map toLowerCaseChar s"

definition toUpperCase :: "string \<Rightarrow> string" where
  "toUpperCase s = map toUpperCaseChar s"

definition isDigitChar :: "char \<Rightarrow> bool" where
  "isDigitChar c = (let n = (of_char c :: nat) in 48 \<le> n \<and> n \<le> 57)"

definition isLowerHexLetter :: "char \<Rightarrow> bool" where
  "isLowerHexLetter c = (let n = (of_char c :: nat) in 97 \<le> n \<and> n \<le> 102)"

definition isUpperHexLetter :: "char \<Rightarrow> bool" where
  "isUpperHexLetter c = (let n = (of_char c :: nat) in 65 \<le> n \<and> n \<le> 70)"

definition isHexChar :: "char \<Rightarrow> bool" where
  "isHexChar c = (isDigitChar c \<or> isLowerHexLetter c \<or> isUpperHexLetter c)"

definition isLetterChar :: "char \<Rightarrow> bool" where
  "isLetterChar c =
    (let n = (of_char c :: nat) in (65 \<le> n \<and> n \<le> 90) \<or> (97 \<le> n \<and> n \<le> 122))"

text \<open>
  The decimal digits of a natural number (\<open>String\<close> of a non-negative integer), its
  hexadecimal digits in lower case (\<open>toString(16)\<close>), and a string padded with zeros on
  the left.
\<close>

function natToString :: "nat \<Rightarrow> string" where
  "natToString n =
    (if n < 10 then [char_of (48 + n)] else natToString (n div 10) @ [char_of (48 + n mod 10)])"
  by pat_completeness auto
termination
  by (relation "measure id") auto

definition hexDigit :: "nat \<Rightarrow> char" where
  "hexDigit d = (if d < 10 then char_of (48 + d) else char_of (87 + d))"

function natToHex :: "nat \<Rightarrow> string" where
  "natToHex n = (if n < 16 then [hexDigit n] else natToHex (n div 16) @ [hexDigit (n mod 16)])"
  by pat_completeness auto
termination
  by (relation "measure id") auto

definition padLeft :: "nat \<Rightarrow> string \<Rightarrow> string" where
  "padLeft d s = replicate (d - length s) CHR ''0'' @ s"

text \<open>
  \<open>getChecksumAddress\<close> of ethers: the argument carries its \<open>0x\<close> prefix and has at least
  forty characters after it (every caller sees to that). The first forty are hashed and
  put in upper case where the hash says so; any further character is kept.
\<close>

definition getChecksumAddress :: "string \<Rightarrow> string" where
  "getChecksumAddress address =
    (let chars = drop 2 (toLowerCase address);
         hashed = keccak256 (map of_char (take 40 chars))
     in ''0x'' @ map (\<lambda>i. if (if even i then hashed ! (i div 2) div 16
                                else hashed ! (i div 2) mod 16) \<ge> 8
                           then toUpperCaseChar (chars ! i) else chars ! i) [0..<40]
             @ drop 40 chars)"

text \<open>
  The ICAP form of an address, \<open>/^XE[0-9]{2}[0-9A-Za-z]{30,31}$/\<close>: its IBAN check digits
  (the number spelt by the rearranged string, letters counting as 10 to 35, modulo 97;
  ethers reduces it in blocks of fifteen digits, which gives the same residue) and the
  number its last characters spell in base 36.
\<close>

definition isIcap :: "string \<Rightarrow> bool" where
  "isIcap address =
    ((length address = 34 \<or> length address = 35) \<and> take 2 address = ''XE''
     \<and> list_all isDigitChar (take 2 (drop 2 address))
     \<and> list_all (\<lambda>c. isDigitChar c \<or> isLetterChar c) (drop 4 address))"

definition ibanChecksum :: "string \<Rightarrow> string" where
  "ibanChecksum address =
    (let a = toUpperCase address;
         expanded = fold (\<lambda>c n. if isDigitChar c then n * 10 + (of_char c - 48)
                                 else n * 100 + (of_char c - 55))
                         (drop 4 a @ take 2 a @ ''00'') (0::nat)
     in padLeft 2 (natToString (98 - expanded mod 97)))"

definition fromBase36 :: "string \<Rightarrow> nat" where
  "fromBase36 v =
    fold (\<lambda>c n. n * 36 + (if isDigitChar c then of_char c - 48 else of_char c - 87))
         (toLowerCase v) 0"

text \<open>
  \<open>ethers.getAddress\<close> (version 6): forty hex digits with or without the prefix are
  checksummed; when the argument mixes upper and lower case letters it must already be its
  own checksum. An ICAP string with the right check digits is decoded, padded to forty
  hex digits and checksummed. \<open>None\<close> is the thrown "invalid address", "bad address
  checksum" or "bad icap checksum".
\<close>

definition getAddress :: "string \<Rightarrow> string option" where
  "getAddress address =
    (let body = (if take 2 address = ''0x'' then drop 2 address else address)
     in if length body = 40 \<and> list_all isHexChar body then
          (let address' = ''0x'' @ body;
               result = getChecksumAddress address'
           in if list_ex isUpperHexLetter address' \<and> list_ex isLowerHexLetter address'
                 \<and> result \<noteq> address'
              then None else Some result)
        else if isIcap address then
          (if take 2 (drop 2 address) = ibanChecksum address
           then Some (getChecksumAddress (''0x'' @ padLeft 40 (natToHex (fromBase36 (drop 4 address)))))
           else None)
        else None)"

record ValidationResult =
  isValid :: bool
  errors :: "string list"
  normalized :: "string option"

text \<open>The format check \<open>/^0x[a-fA-F0-9]{40}$/\<close>.\<close>

definition matchesAddressFormat :: "string \<Rightarrow> bool" where
  "matchesAddressFormat address =
    (length address = 42 \<and> take 2 address = ''0x'' \<and> list_all isHexChar (drop 2 address))"

definition isValidEthereumAddress :: "string \<Rightarrow> ValidationResult" where
  "isValidEthereumAddress address =
    (if address = [] then
       \<lparr>isValid = False, errors = [''Address is required''], normalized = None\<rparr>
     else
       (let errs = (if matchesAddressFormat address then []
                    else [''Invalid Ethereum address format''])
        in case getAddress address of
             Some checksumAddress \<Rightarrow>
               \<lparr>isValid = (errs = []), errors = errs, normalized = Some checksumAddress\<rparr>
           | None \<Rightarrow>
               \<lparr>isValid = False, errors = errs @ [''Invalid address checksum''],
                normalized = None\<rparr>))"

section \<open>Data models\<close>

text \<open>
  \<open>WalletEvent\<close> (models/WalletEvent.ts). The decimal strings \<open>value\<close> and \<open>gasPrice\<close> are
  held as the numbers \<open>parseFloat\<close> reads from them, the only way the services use them;
  an optional string field is an \<open>option\<close>. Fields the services never read (block number,
  gas used, token fields, nonce, position) are left out.
\<close>

datatype TxStatus = Success | Failed

record WalletEvent =
  ev_hash :: string
  ev_from :: string
  ev_to :: "string option"
  ev_value :: real
  ev_timestamp :: real
  ev_gasPrice :: real
  ev_status :: TxStatus
  ev_input :: "string option"
  ev_contractAddress :: "string option"

text \<open>
  A JavaScript \<open>number\<close> that need not be finite: a finite value, \<open>NaN\<close>, or an infinity.
  Finite values are exact reals: the rounding of the 64-bit format is not part of the
  model, and zero has no sign (a division by zero is a division by \<open>+0\<close>). The operations
  below are the arithmetic, the comparisons and the \<open>Math\<close> functions of the language on
  such numbers: a comparison with \<open>NaN\<close> is false, \<open>NaN\<close> spreads through arithmetic and
  through \<open>Math.min\<close> and \<open>Math.max\<close>.
\<close>

datatype jsnumber = Num real | NaN | PosInfinity | NegInfinity

text \<open>\<open>x < y\<close>, \<open>x <= y\<close> and \<open>x >= y\<close>.\<close>

fun js_less :: "jsnumber \<Rightarrow> jsnumber \<Rightarrow> bool" where
  "js_less (Num a) (Num b) = (a < b)"
| "js_less (Num a) PosInfinity = True"
| "js_less NegInfinity (Num b) = True"
| "js_less NegInfinity PosInfinity = True"
| "js_less x y = False"

fun js_le :: "jsnumber \<Rightarrow> jsnumber \<Rightarrow> bool" where
  "js_le (Num a) (Num b) = (a \<le> b)"
| "js_le (Num a) PosInfinity = True"
| "js_le NegInfinity (Num b) = True"
| "js_le NegInfinity PosInfinity = True"
| "js_le PosInfinity PosInfinity = True"
| "js_le NegInfinity NegInfinity = True"
| "js_le x y = False"

definition js_ge :: "jsnumber \<Rightarrow> jsnumber \<Rightarrow> bool" where
  "js_ge x y = js_le y x"

text \<open>\<open>-x\<close>, \<open>x + y\<close>, \<open>x - y\<close>, \<open>x * y\<close>, \<open>x / y\<close>.\<close>

fun js_neg :: "jsnumber \<Rightarrow> jsnumber" where
  "js_neg (Num a) = Num (- a)"
| "js_neg NaN = NaN"
| "js_neg PosInfinity = NegInfinity"
| "js_neg NegInfinity = PosInfinity"

fun js_plus :: "jsnumber \<Rightarrow> jsnumber \<Rightarrow> jsnumber" where
  "js_plus (Num a) (Num b) = Num (a + b)"
| "js_plus NaN y = NaN"
| "js_plus x NaN = NaN"
| "js_plus PosInfinity NegInfinity = NaN"
| "js_plus NegInfinity PosInfinity = NaN"
| "js_plus PosInfinity y = PosInfinity"
| "js_plus x PosInfinity = PosInfinity"
| "js_plus NegInfinity y = NegInfinity"
| "js_plus x NegInfinity = NegInfinity"

definition js_minus :: "jsnumber \<Rightarrow> jsnumber \<Rightarrow> jsnumber" where
  "js_minus x y = js_plus x (js_neg y)"

text \<open>The sign of a number that is not \<open>NaN\<close>.\<close>

fun js_sign :: "jsnumber \<Rightarrow> real" where
  "js_sign (Num a) = sgn a"
| "js_sign PosInfinity = 1"
| "js_sign NegInfinity = - 1"
| "js_sign NaN = 0"

fun js_times :: "jsnumber \<Rightarrow> jsnumber \<Rightarrow> jsnumber" where
  "js_times (Num a) (Num b) = Num (a * b)"
| "js_times NaN y = NaN"
| "js_times x NaN = NaN"
| "js_times x y =
    (if js_sign x * js_sign y = 0 then NaN
     else if js_sign x * js_sign y > 0 then PosInfinity else NegInfinity)"

fun js_div :: "jsnumber \<Rightarrow> jsnumber \<Rightarrow> jsnumber" where
  "js_div (Num a) (Num b) =
    (if b = 0 then (if a = 0 then NaN else if a > 0 then PosInfinity else NegInfinity)
     else Num (a / b))"
| "js_div NaN y = NaN"
| "js_div x NaN = NaN"
| "js_div (Num a) y = Num 0"
| "js_div x (Num b) = (if b < 0 then js_neg x else x)"
| "js_div x y = NaN"

text \<open>\<open>Math.abs\<close>, \<open>Math.exp\<close>, \<open>Math.min\<close> and \<open>Math.max\<close> of two numbers.\<close>

fun js_abs :: "jsnumber \<Rightarrow> jsnumber" where
  "js_abs (Num a) = Num \<bar>a\<bar>"
| "js_abs NaN = NaN"
| "js_abs x = PosInfinity"

fun js_exp :: "jsnumber \<Rightarrow> jsnumber" where
  "js_exp (Num a) = Num (exp a)"
| "js_exp NaN = NaN"
| "js_exp PosInfinity = PosInfinity"
| "js_exp NegInfinity = Num 0"

fun js_min :: "jsnumber \<Rightarrow> jsnumber \<Rightarrow> jsnumber" where
  "js_min (Num a) (Num b) = Num (min a b)"
| "js_min NaN y = NaN"
| "js_min x NaN = NaN"
| "js_min NegInfinity y = NegInfinity"
| "js_min x NegInfinity = NegInfinity"
| "js_min PosInfinity y = y"
| "js_min x PosInfinity = x"

fun js_max :: "jsnumber \<Rightarrow> jsnumber \<Rightarrow> jsnumber" where
  "js_max (Num a) (Num b) = Num (max a b)"
| "js_max NaN y = NaN"
| "js_max x NaN = NaN"
| "js_max PosInfinity y = PosInfinity"
| "js_max x PosInfinity = PosInfinity"
| "js_max NegInfinity y = y"
| "js_max x NegInfinity = x"

text \<open>\<open>Math.max(...xs)\<close>: \<open>-Infinity\<close> for no argument.\<close>

definition js_max_list :: "jsnumber list \<Rightarrow> jsnumber" where
  "js_max_list xs = fold js_max xs NegInfinity"

text \<open>Truthiness of a number: neither zero nor \<open>NaN\<close>.\<close>

fun js_truthy :: "jsnumber \<Rightarrow> bool" where
  "js_truthy (Num a) = (a \<noteq> 0)"
| "js_truthy NaN = False"
| "js_truthy x = True"

datatype RiskLevel = LOW | MEDIUM | HIGH | CRITICAL

text \<open>The enum's string values, as they appear in messages and in contract calls.\<close>

fun riskLevelString :: "RiskLevel \<Rightarrow> string" where
  "riskLevelString LOW = ''low''"
| "riskLevelString MEDIUM = ''medium''"
| "riskLevelString HIGH = ''high''"
| "riskLevelString CRITICAL = ''critical''"

text \<open>
  \<open>FeatureVector\<close> (models/ScoringResult.ts). Three pattern features (\<open>activeDays\<close>,
  \<open>timeDistribution\<close>, \<open>activityConsistency\<close>) depend on the host's local calendar and on
  the default string ordering of \<open>Array.prototype.sort\<close>; no scoring rule, flag or
  explanation reads them, and they are left out of the record.
\<close>

record FeatureVector =
  transactionCount :: real
  transactionsPerDay :: real
  avgTransactionValue :: real
  maxTransactionValue :: real
  minTransactionValue :: real
  accountAgeDays :: real
  daysSinceLastTx :: real
  uniqueCounterparties :: real
  contractInteractions :: real
  failedTransactions :: real
  gasUsagePattern :: real
  totalVolume :: real
  balance :: real
  avgGasPrice :: real
  valueConcentration :: real
  clusteringCoefficient :: real
  pageRank :: real

text \<open>
  \<open>ScoringResult\<close>: the score and the confidence are numbers of the language, which the
  scoring engine computes from the output of the classifier.
\<close>

record ScoringResult =
  walletAddress :: string
  reputationScore :: jsnumber
  riskLevel :: RiskLevel
  confidence :: jsnumber
  features :: FeatureVector
  timestamp :: int
  sr_transactionCount :: nat
  flags :: "string list"
  explanation :: string

text \<open>A JavaScript \<open>Set\<close> of strings: \<open>add\<close>, \<open>has\<close>, \<open>delete\<close>, \<open>size\<close>.\<close>

definition set_add :: "string \<Rightarrow> string list \<Rightarrow> string list" where
  "set_add x xs = (if x \<in> set xs then xs else xs @ [x])"

definition set_has :: "string list \<Rightarrow> string \<Rightarrow> bool" where
  "set_has xs x = (x \<in> set xs)"

text \<open>\<open>Array.prototype.join\<close> and \<open>String.prototype.includes\<close>.\<close>

fun join :: "string \<Rightarrow> string list \<Rightarrow> string" where
  "join sep [] = []"
| "join sep [x] = x"
| "join sep (x # y # ys) = x @ sep @ join sep (y # ys)"

fun str_includes :: "string \<Rightarrow> string \<Rightarrow> bool" where
  "str_includes [] sub = (sub = [])"
| "str_includes (c # cs) sub = (take (length sub) (c # cs) = sub \<or> str_includes cs sub)"

section \<open>Broadcast hub: \<open>WebSocketService\<close>\<close>

record RateInfo =
  count :: nat
  resetTime :: int

text \<open>
  \<open>WebSocketConnection\<close>: \<open>connected\<close> is \<open>socket.connected\<close> of the transport handle.
\<close>

record WebSocketConnection =
  connId :: string
  connected :: bool
  subscribedWallets :: "string list"
  connectedAt :: int
  lastActivity :: int
  sessionId :: "string option"

text \<open>
  The frames of the operations modelled here; the envelope's random \<open>id\<close>, its \<open>timestamp\<close> and the constant
  \<open>version\<close> are left out. \<open>ErrorMessage code message recoverable\<close>,
  \<open>SubscribeMessage wallet sessionId\<close> (with \<open>subscribed: true\<close>),
  \<open>ScoreUpdateMessage wallet score previousScore\<close>.
\<close>

datatype WSMessage =
    ErrorMessage string string bool
  | SubscribeMessage string string
  | ScoreUpdateMessage string ScoringResult "ScoringResult option"

record HubState =
  io :: bool
  connections :: "(string \<times> WebSocketConnection) list"
  messageCounts :: "string \<rightharpoonup> RateInfo"

definition maxMessages :: nat where "maxMessages = 100"
definition windowMs :: int where "windowMs = 60000"
definition maxSubscriptions :: nat where "maxSubscriptions = 50"

text \<open>
  \<open>sendMessage\<close> emits on a connected socket and only logs otherwise; the emitted frames
  are returned with the id of the connection they go to.
\<close>

definition sendMessage :: "WebSocketConnection \<Rightarrow> WSMessage \<Rightarrow> (string \<times> WSMessage) list" where
  "sendMessage c m = (if connected c then [(connId c, m)] else [])"

definition sendErrorMessage ::
  "WebSocketConnection \<Rightarrow> string \<Rightarrow> string \<Rightarrow> (string \<times> WSMessage) list" where
  "sendErrorMessage c code message =
    (if connected c then sendMessage c (ErrorMessage code message (\<not> str_includes code ''FATAL''))
     else [])"

text \<open>
  \<open>checkRateLimit\<close>: the counter of the connection is created or reset when there is none
  or its window is over, then incremented in place; the call answers whether the
  incremented counter is within \<open>maxMessages\<close>.
\<close>

definition checkRateLimit ::
  "int \<Rightarrow> (string \<rightharpoonup> RateInfo) \<Rightarrow> string \<Rightarrow> bool \<times> (string \<rightharpoonup> RateInfo)" where
  "checkRateLimit now mc connectionId =
    (let rateInfo =
           (case mc connectionId of
              None \<Rightarrow> \<lparr>count = 0, resetTime = now + windowMs\<rparr>
            | Some ri \<Rightarrow> if now \<ge> resetTime ri then \<lparr>count = 0, resetTime = now + windowMs\<rparr>
                        else ri);
         rateInfo' = rateInfo\<lparr>count := count rateInfo + 1\<rparr>
     in (\<not> (count rateInfo' > maxMessages), mc(connectionId \<mapsto> rateInfo')))"

text \<open>
  A field of the untyped payload of a client message: missing or falsy, a string, or a
  truthy value of another type. \<open>None\<close> for the payload is a value that is not an object.
\<close>

datatype jsfield = Absent | Str string | NonString

record SubscribeData =
  wallet :: jsfield
  sd_sessionId :: jsfield

text \<open>
  \<open>validateSubscribeData\<close>: \<open>Inl\<close> the error list, \<open>Inr\<close> the normalized wallet and session
  id. \<open>freshSession\<close> is what \<open>Helpers.generateUniqueId('session')\<close> returns.
\<close>

definition validateSubscribeData ::
  "string \<Rightarrow> SubscribeData option \<Rightarrow> string list + (string \<times> string)" where
  "validateSubscribeData freshSession data =
    (case data of
       None \<Rightarrow> Inl [''Invalid data format'']
     | Some d \<Rightarrow>
        (let errs1 = (case wallet d of
                        Str w \<Rightarrow> if w = [] then [''Wallet address is required'']
                                 else (let v = isValidEthereumAddress w
                                       in if \<not> isValid v then errors v else [])
                      | _ \<Rightarrow> [''Wallet address is required'']);
             errs2 = (case sd_sessionId d of
                        NonString \<Rightarrow> [''Session ID must be a string'']
                      | _ \<Rightarrow> [])
         in if errs1 @ errs2 \<noteq> [] then Inl (errs1 @ errs2)
            else (case wallet d of
                    Str w \<Rightarrow>
                      (case normalized (isValidEthereumAddress w) of
                         Some n \<Rightarrow>
                           Inr (n, (case sd_sessionId d of
                                      Str s \<Rightarrow> if s = [] then freshSession else s
                                    | _ \<Rightarrow> freshSession))
                       | None \<Rightarrow> Inl [])
                  | _ \<Rightarrow> Inl [])))"

text \<open>
  \<open>handleSubscribe\<close> on the connection object and the rate table: the updated
  connection, the updated table and the frames sent. Nothing in the body throws for a
  payload of this type, so the handler's \<open>catch\<close> has no branch here.
\<close>

definition handleSubscribe ::
  "int \<Rightarrow> string \<Rightarrow> (string \<rightharpoonup> RateInfo) \<Rightarrow> WebSocketConnection \<Rightarrow> SubscribeData option
    \<Rightarrow> WebSocketConnection \<times> (string \<rightharpoonup> RateInfo) \<times> (string \<times> WSMessage) list" where
  "handleSubscribe now freshSession mc connection data =
    (let c = connection\<lparr>lastActivity := now\<rparr>;
         (ok, mc') = checkRateLimit now mc (connId c)
     in if \<not> ok then
          (c, mc', sendErrorMessage c ''RATE_LIMIT_EXCEEDED'' ''Too many messages, please slow down'')
        else
          (case validateSubscribeData freshSession data of
             Inl errs \<Rightarrow> (c, mc', sendErrorMessage c ''INVALID_SUBSCRIPTION'' (join '', '' errs))
           | Inr (w, sid) \<Rightarrow>
               if length (subscribedWallets c) \<ge> maxSubscriptions then
                 (c, mc', sendErrorMessage c ''SUBSCRIPTION_LIMIT_EXCEEDED''
                            ''Maximum 50 subscriptions allowed'')
               else
                 (let c' = c\<lparr>subscribedWallets := set_add w (subscribedWallets c),
                             sessionId := Some sid\<rparr>
                  in (c', mc', sendMessage c' (SubscribeMessage w sid)))))"

text \<open>
  \<open>broadcastScoreUpdate\<close>: nothing without a server; otherwise the frame goes to every
  connection whose subscription set has the lower-cased wallet address.
\<close>

definition broadcastScoreUpdate ::
  "HubState \<Rightarrow> string \<Rightarrow> ScoringResult \<Rightarrow> ScoringResult option \<Rightarrow> (string \<times> WSMessage) list" where
  "broadcastScoreUpdate h walletAddr score previousScore =
    (if \<not> io h then []
     else concat (map (\<lambda>(cid, c).
            if set_has (subscribedWallets c) (toLowerCase walletAddr)
            then sendMessage c (ScoreUpdateMessage walletAddr score previousScore) else [])
          (connections h)))"

text \<open>
  The subscribe handler of one connection, run on the messages of that connection in
  their order of arrival, each with the clock reading at its arrival; the frames sent are
  kept per message.
\<close>

fun receiveSubscribes ::
  "string \<Rightarrow> (int \<times> SubscribeData option) list \<Rightarrow> (string \<rightharpoonup> RateInfo) \<Rightarrow> WebSocketConnection
    \<Rightarrow> WebSocketConnection \<times> (string \<rightharpoonup> RateInfo) \<times> (string \<times> WSMessage) list list" where
  "receiveSubscribes freshSession [] mc c = (c, mc, [])"
| "receiveSubscribes freshSession (m # ms) mc c =
    (let (c', mc', out) = handleSubscribe (fst m) freshSession mc c (snd m);
         (c'', mc'', outs) = receiveSubscribes freshSession ms mc' c'
     in (c'', mc'', out # outs))"

section \<open>Feature extraction: \<open>FeatureProcessor\<close>\<close>

text \<open>
  The processor keeps, per wallet address, the events it has been given so far
  (\<open>transactionHistory\<close>); every extraction first merges the events of the call into that
  history.
\<close>

type_synonym history = "string \<rightharpoonup> WalletEvent list"

definition MAX_HISTORY :: nat where "MAX_HISTORY = 1000"

text \<open>
  \<open>updateTransactionHistory\<close>: the stored events followed by the new ones, sorted by
  descending timestamp (the sort of the runtime is stable, as \<open>sort_key\<close> is), cut to the
  first \<open>MAX_HISTORY\<close>.
\<close>

definition updateTransactionHistory :: "history \<Rightarrow> string \<Rightarrow> WalletEvent list \<Rightarrow> history" where
  "updateTransactionHistory h walletAddr newEvents =
    (let current = (case h walletAddr of None \<Rightarrow> [] | Some es \<Rightarrow> es);
         updated = take MAX_HISTORY (sort_key (\<lambda>e. - ev_timestamp e) (current @ newEvents))
     in h(walletAddr \<mapsto> updated))"

definition normalizeValue :: "real \<Rightarrow> real" where
  "normalizeValue v = (if v > 1000000000000000 then v / 1000000000000000000 else v)"

definition normalizeGasPattern :: "real \<Rightarrow> real" where
  "normalizeGasPattern gasPrice = min (gasPrice / 1000000000 / 1000) 1"

text \<open>Truthiness of an optional string: present and not empty.\<close>

definition truthy :: "string option \<Rightarrow> bool" where
  "truthy s = (case s of None \<Rightarrow> False | Some x \<Rightarrow> x \<noteq> [])"

text \<open>
  \<open>extractFeaturesFromEvent\<close> at clock reading \<open>nowMs\<close>: the feature vector and the updated
  history. The arithmetic of the body raises nothing, so the \<open>catch\<close> that would return
  the default features has no branch here.
\<close>

definition extractFeaturesFromEvent ::
  "real \<Rightarrow> history \<Rightarrow> string \<Rightarrow> WalletEvent list \<Rightarrow> FeatureVector \<times> history" where
  "extractFeaturesFromEvent nowMs h walletAddr events =
    (let h' = updateTransactionHistory h walletAddr events;
         walletEvents = (case h' walletAddr of None \<Rightarrow> [] | Some es \<Rightarrow> es);
         txCount = real (length walletEvents);
         successfulTxs = filter (\<lambda>tx. ev_status tx = Success) walletEvents;
         failedTxs = filter (\<lambda>tx. ev_status tx = Failed) walletEvents;
         vals = map ev_value successfulTxs;
         totalVol = sum_list vals;
         avgValue = (if vals \<noteq> [] then totalVol / real (length vals) else 0);
         maxValue = (if vals \<noteq> [] then fold max vals (hd vals) else 0);
         minValue = (if vals \<noteq> [] then fold min vals (hd vals) else 0);
         now = nowMs / 1000;
         timestamps = map ev_timestamp walletEvents;
         ageDays = (if timestamps \<noteq> []
                    then (now - fold min timestamps (hd timestamps)) / (24 * 60 * 60) else 0);
         sinceLast = (if timestamps \<noteq> []
                      then (now - fold max timestamps (hd timestamps)) / (24 * 60 * 60) else 365);
         counterparties = length (remdups (concat (map (\<lambda>tx.
                            map the (filter truthy [Some (ev_from tx), ev_to tx])) walletEvents)));
         contractCalls = length (filter (\<lambda>tx. truthy (ev_contractAddress tx)
                            \<or> (case ev_input tx of None \<Rightarrow> False
                                | Some i \<Rightarrow> i \<noteq> [] \<and> length i > 10)) walletEvents);
         gasPrices = map ev_gasPrice walletEvents;
         avgGas = (if gasPrices \<noteq> [] then sum_list gasPrices / real (length gasPrices) else 0);
         perDay = (if ageDays > 0 then txCount / ageDays else 0);
         concentration = (if maxValue > 0 then avgValue / maxValue else 0)
     in (\<lparr>transactionCount = txCount,
          transactionsPerDay = min perDay 100,
          avgTransactionValue = normalizeValue avgValue,
          maxTransactionValue = normalizeValue maxValue,
          minTransactionValue = normalizeValue minValue,
          accountAgeDays = min ageDays (365 * 5),
          daysSinceLastTx = min sinceLast 365,
          uniqueCounterparties = real counterparties,
          contractInteractions = real contractCalls,
          failedTransactions = real (length failedTxs),
          gasUsagePattern = normalizeGasPattern avgGas,
          totalVolume = normalizeValue totalVol,
          balance = 0,
          avgGasPrice = normalizeValue avgGas,
          valueConcentration = concentration,
          clusteringCoefficient = 0,
          pageRank = 0\<rparr>, h'))"

section \<open>Scoring engine: \<open>ScoringService\<close>\<close>

text \<open>
  The loaded classifier is a collaborator: \<open>model\<close> is \<open>None\<close> when no model is loaded,
  else the function from a feature vector to the output tensor of the inference run
  (the mapping of the features to the model's input order and the run itself), \<open>None\<close>
  when the run throws. The entries of the tensor are 32-bit floating-point values, so
  they need not be finite. The blacklist holds lower-cased addresses.
\<close>

record ScoringService =
  model :: "(FeatureVector \<Rightarrow> jsnumber list option) option"
  featureNames :: "string list"
  blacklist :: "string list"

definition BLACKLIST_PENALTY :: real where "BLACKLIST_PENALTY = - 30"

definition determineRiskLevel :: "jsnumber \<Rightarrow> RiskLevel" where
  "determineRiskLevel score =
    (if js_ge score (Num 70) then LOW
     else if js_ge score (Num 50) then MEDIUM
     else if js_ge score (Num 30) then HIGH
     else CRITICAL)"

definition generateFlags ::
  "ScoringService \<Rightarrow> string \<Rightarrow> FeatureVector \<Rightarrow> jsnumber \<Rightarrow> string list" where
  "generateFlags svc walletAddr f score =
      (if set_has (blacklist svc) (toLowerCase walletAddr) then [''blacklisted''] else [])
    @ (if failedTransactions f > 10 then [''high_failure_rate''] else [])
    @ (if transactionsPerDay f > 50 then [''high_frequency''] else [])
    @ (if uniqueCounterparties f > 500 then [''many_counterparties''] else [])
    @ (if accountAgeDays f < 7 then [''new_account''] else [])
    @ (if contractInteractions f > 200 then [''high_contract_activity''] else [])
    @ (if js_less score (Num 30) then [''critical_risk'']
       else if js_less score (Num 50) then [''high_risk''] else [])"

definition generateExplanation ::
  "jsnumber \<Rightarrow> RiskLevel \<Rightarrow> FeatureVector \<Rightarrow> real \<Rightarrow> string" where
  "generateExplanation score level f blacklistPenalty =
    (let factors =
             (if blacklistPenalty < 0 then [''wallet is in blacklist''] else [])
           @ (if failedTransactions f > 5 then [''high number of failed transactions''] else [])
           @ (if transactionsPerDay f > 20 then [''unusually high transaction frequency''] else [])
           @ (if uniqueCounterparties f > 200 then [''interacts with many unique addresses''] else [])
           @ (if accountAgeDays f < 30 then [''recently created wallet''] else [])
           @ (if avgTransactionValue f > 50 then [''high average transaction value''] else []);
         factors' = (if factors = [] then [''normal transaction patterns detected''] else factors)
     in ''Risk level: '' @ riskLevelString level @ ''. Factors: '' @ join ''; '' factors' @ ''.'')"

subsection \<open>Number formatting\<close>

text \<open>
  \<open>Number.prototype.toFixed\<close>: the sign, then the
  nearest multiple of \<open>10\<^sup>-\<^sup>d\<close> (the larger one on a tie) with \<open>d\<close> decimals. \<open>roundFixed\<close>
  is \<open>parseFloat(x.toFixed(d))\<close> for a non-negative \<open>x\<close>. Both take the exact real: the
  64-bit value nearest to a decimal tie such as 72.675 lies off the tie and may round the
  other way.
\<close>

definition toFixed :: "real \<Rightarrow> nat \<Rightarrow> string" where
  "toFixed x d =
    (let n = nat (round (\<bar>x\<bar> * 10 ^ d))
     in (if x < 0 then ''-'' else [])
        @ natToString (n div 10 ^ d)
        @ (if d = 0 then [] else ''.'' @ padLeft d (natToString (n mod 10 ^ d))))"

definition roundFixed :: "real \<Rightarrow> nat \<Rightarrow> real" where
  "roundFixed x d = real_of_int (round (x * 10 ^ d)) / 10 ^ d"

text \<open>A count held in a \<open>number\<close>, as a template string prints it.\<close>

definition countToString :: "real \<Rightarrow> string" where
  "countToString x = natToString (nat \<lfloor>x\<rfloor>)"

subsection \<open>Rule-based fallback\<close>

text \<open>
  \<open>calculateFallbackScore\<close>, with the local variables of its body as functions of the
  feature vector \<open>f\<close> and the events of the call. \<open>Math.log\<close> is \<open>ln\<close>, \<open>Math.log10\<close> is
  \<open>log 10\<close>, \<open>events.slice(-20)\<close> is the last twenty events.
\<close>

definition patternRisk :: "FeatureVector \<Rightarrow> WalletEvent list \<Rightarrow> real" where
  "patternRisk f events =
      (if events \<noteq> [] then
         sum_list (map (\<lambda>e. (if ev_value e > 1000 then 5 else 0)
                            + (if ev_status e = Failed then 8 else 0))
                       (drop (length events - 20) events))
         + (if failedTransactions f > 0 then failedTransactions f * 5 else 0)
       else 0)
    + (if transactionsPerDay f > 50 then min 25 ((transactionsPerDay f - 50) * 0.3) else 0)
    + (if avgTransactionValue f > 100 then min 15 (log 10 (avgTransactionValue f) * 2) else 0)
    + failedTransactions f * 4"

definition patternBonus :: "FeatureVector \<Rightarrow> WalletEvent list \<Rightarrow> real" where
  "patternBonus f events =
      (if events \<noteq> [] then
           (if uniqueCounterparties f > 5
            then min 15 (ln (uniqueCounterparties f + 1) * 3) else 0)
         + (if accountAgeDays f > 7 then min 10 (ln (accountAgeDays f + 1) * 2) else 0)
       else 0)
    + (if \<not> transactionsPerDay f > 50 \<and> transactionsPerDay f > 0 \<and> transactionsPerDay f \<le> 10
       then min 5 (transactionsPerDay f * 0.3) else 0)"

text \<open>The score of the fallback after the clamp to \<open>[0, 100]\<close>, before it is rounded.\<close>

definition fallbackScore ::
  "ScoringService \<Rightarrow> string \<Rightarrow> FeatureVector \<Rightarrow> WalletEvent list \<Rightarrow> real" where
  "fallbackScore svc walletAddr f events =
    (let baseScore = 70 + (if transactionCount f > 0
                           then min 8 (log 10 (transactionCount f + 1) * 2) else 0);
         score0 = baseScore - patternRisk f events + patternBonus f events;
         score1 = (if accountAgeDays f > 30 then score0 + min 15 (log 10 (accountAgeDays f) * 3)
                   else if accountAgeDays f < 1 then score0 - 20 else score0);
         score2 = (if set_has (blacklist svc) (toLowerCase walletAddr)
                   then score1 + BLACKLIST_PENALTY else score1)
     in max 0 (min 100 score2))"

definition fallbackExplanation :: "RiskLevel \<Rightarrow> FeatureVector \<Rightarrow> WalletEvent list \<Rightarrow> string" where
  "fallbackExplanation level f events =
    (let riskFactors =
             (if failedTransactions f > 0
              then [countToString (failedTransactions f) @ '' failed transactions''] else [])
           @ (if avgTransactionValue f > 100
              then [''high avg value ('' @ toFixed (avgTransactionValue f) 2 @ '')''] else [])
           @ (if transactionsPerDay f > 20
              then [''high frequency ('' @ toFixed (transactionsPerDay f) 2 @ ''/day)''] else [])
           @ (if accountAgeDays f < 7
              then [''new account ('' @ toFixed (accountAgeDays f) 1 @ '' days)''] else [])
           @ (if patternRisk f events > 0 then [''pattern risks identified''] else []);
         activityFactors =
             (if transactionCount f > 0
              then [countToString (transactionCount f) @ '' total transactions''] else [])
           @ (if uniqueCounterparties f > 5
              then [countToString (uniqueCounterparties f) @ '' unique counterparties''] else [])
           @ (if accountAgeDays f > 30
              then [''established account ('' @ toFixed (accountAgeDays f) 1 @ '' days)''] else [])
           @ (if patternBonus f events > 0 then [''positive patterns detected''] else []);
         activity = (if activityFactors \<noteq> []
                     then Some (''Activity factors: '' @ join '', '' activityFactors @ ''.'')
                     else None)
     in if riskFactors \<noteq> [] then
          ''Risk level: '' @ riskLevelString level @ ''. Risk factors: ''
          @ join '', '' riskFactors @ ''. '' @ (case activity of Some a \<Rightarrow> a | None \<Rightarrow> [])
        else
          ''Account activity: '' @ countToString (transactionCount f) @ '' transactions. ''
          @ (case activity of Some a \<Rightarrow> a | None \<Rightarrow> ''Regular activity.''))"

text \<open>
  The risk level and the flags are taken from the clamped score; the reported score is
  that score rounded to two decimals, and so is the confidence.
\<close>

definition calculateFallbackScore ::
  "real \<Rightarrow> ScoringService \<Rightarrow> history \<Rightarrow> string \<Rightarrow> WalletEvent list \<Rightarrow> ScoringResult \<times> history" where
  "calculateFallbackScore nowMs svc h walletAddr events =
    (let (f, h') = extractFeaturesFromEvent nowMs h walletAddr events;
         score = fallbackScore svc walletAddr f events;
         conf = min 0.8 (max 0.3 (real (length events) * 0.05));
         level = determineRiskLevel (Num score)
     in (\<lparr>walletAddress = walletAddr,
          reputationScore = Num (roundFixed score 2),
          riskLevel = level,
          confidence = Num (roundFixed conf 2),
          features = f,
          timestamp = \<lfloor>nowMs / 1000\<rfloor>,
          sr_transactionCount = length events,
          flags = generateFlags svc walletAddr f (Num score),
          explanation = fallbackExplanation level f events\<rparr>, h'))"

subsection \<open>Model prediction and the score of a wallet\<close>

record ModelPrediction =
  mp_score :: jsnumber
  probabilities :: "jsnumber list"

definition zeroAddress :: string where
  "zeroAddress = ''0x0000000000000000000000000000000000000000''"

text \<open>
  The prediction that \<open>getMLPrediction\<close> builds from the rule-based fallback: the fallback
  is called with the zero address and no events.
\<close>

definition fallbackPrediction ::
  "real \<Rightarrow> ScoringService \<Rightarrow> history \<Rightarrow> ModelPrediction \<times> history" where
  "fallbackPrediction nowMs svc h =
    (let (fallbackResult, h') = calculateFallbackScore nowMs svc h zeroAddress []
     in (\<lparr>mp_score = reputationScore fallbackResult,
          probabilities = [js_minus (Num 1) (js_div (reputationScore fallbackResult) (Num 100)),
                           js_div (reputationScore fallbackResult) (Num 100)]\<rparr>, h'))"

text \<open>
  \<open>getMLPrediction\<close>. With a model: two outputs are class probabilities, one output is a
  logit, any other number of outputs are class probabilities whose maximum is taken. The
  score is then clamped with \<open>Math.max(0, Math.min(100, score))\<close>.
\<close>

definition getMLPrediction ::
  "real \<Rightarrow> ScoringService \<Rightarrow> history \<Rightarrow> FeatureVector \<Rightarrow> ModelPrediction \<times> history" where
  "getMLPrediction nowMs svc h f =
    (case model svc of
       None \<Rightarrow> fallbackPrediction nowMs svc h
     | Some run \<Rightarrow>
        if featureNames svc = [] then fallbackPrediction nowMs svc h
        else (case run f of
                None \<Rightarrow> fallbackPrediction nowMs svc h
              | Some outputData \<Rightarrow>
                 (let (probs, score) =
                        (if length outputData = 2 then
                           (outputData, js_times (outputData ! 1) (Num 100))
                         else if length outputData = 1 then
                           (let probability =
                                  js_div (Num 1) (js_plus (Num 1) (js_exp (js_neg (outputData ! 0))))
                            in ([js_minus (Num 1) probability, probability],
                                js_times probability (Num 100)))
                         else (outputData, js_times (js_max_list outputData) (Num 100)))
                  in (\<lparr>mp_score = js_max (Num 0) (js_min (Num 100) score),
                       probabilities = probs\<rparr>, h))))"

text \<open>
  The \<open>catch\<close> block of \<open>calculateWalletScore\<close> runs when a statement of its \<open>try\<close> block
  raises. The feature extraction and the prediction catch what they raise and the rest of
  the block is arithmetic, so for a wallet address and an event list this happens only
  when a collaborator outside the scoring code, the logger, raises. \<open>failure\<close> says whether
  that happens: not at all, in the \<open>try\<close> block (at its first statement), or there and again
  in the fallback that the \<open>catch\<close> block runs.
\<close>

datatype failure = NoFailure | TryFails | TryAndFallbackFail

text \<open>
  \<open>calculateWalletScore\<close>; \<open>None\<close> is the rejected promise. The final score is
  \<open>Math.max(0, Math.min(100, baseScore + blacklistPenalty))\<close>, the confidence is
  \<open>mlPrediction.probabilities[1] || 0.5\<close>.
\<close>

definition calculateWalletScore ::
  "real \<Rightarrow> ScoringService \<Rightarrow> history \<Rightarrow> failure \<Rightarrow> string \<Rightarrow> WalletEvent list
    \<Rightarrow> (ScoringResult \<times> history) option" where
  "calculateWalletScore nowMs svc h fl walletAddr events =
    (case fl of
       TryAndFallbackFail \<Rightarrow> None
     | TryFails \<Rightarrow> Some (calculateFallbackScore nowMs svc h walletAddr events)
     | NoFailure \<Rightarrow>
        (let (f, h1) = extractFeaturesFromEvent nowMs h walletAddr events;
             (mlPrediction, h2) = getMLPrediction nowMs svc h1 f;
             baseScore = mp_score mlPrediction;
             blacklistPenalty = (if set_has (blacklist svc) (toLowerCase walletAddr)
                                 then BLACKLIST_PENALTY else 0);
             finalScore = js_max (Num 0) (js_min (Num 100) (js_plus baseScore (Num blacklistPenalty)));
             level = determineRiskLevel finalScore;
             expl = generateExplanation finalScore level f blacklistPenalty
         in Some (\<lparr>walletAddress = walletAddr,
                   reputationScore = finalScore,
                   riskLevel = level,
                   confidence = (if length (probabilities mlPrediction) > 1
                                    \<and> js_truthy (probabilities mlPrediction ! 1)
                                 then probabilities mlPrediction ! 1 else Num 0.5),
                   features = f,
                   timestamp = \<lfloor>nowMs / 1000\<rfloor>,
                   sr_transactionCount = length events,
                   flags = generateFlags svc walletAddr f finalScore,
                   explanation = expl\<rparr>, h2)))"

text \<open>
  One entry of \<open>batchScoreWallets\<close>: the score of the wallet, or the neutral result of the
  error path when \<open>calculateWalletScore\<close> rejects.
\<close>

definition batchScoreWallet ::
  "real \<Rightarrow> ScoringService \<Rightarrow> history \<Rightarrow> failure \<Rightarrow> string \<Rightarrow> WalletEvent list
    \<Rightarrow> ScoringResult \<times> history" where
  "batchScoreWallet nowMs svc h fl walletAddr events =
    (case calculateWalletScore nowMs svc h fl walletAddr events of
       Some r \<Rightarrow> r
     | None \<Rightarrow>
        (let (f, h') = extractFeaturesFromEvent nowMs h walletAddr events
         in (\<lparr>walletAddress = walletAddr,
              reputationScore = Num 50,
              riskLevel = MEDIUM,
              confidence = Num 0,
              features = f,
              timestamp = \<lfloor>nowMs / 1000\<rfloor>,
              sr_transactionCount = length events,
              flags = [''scoring_error''],
              explanation = ''Scoring failed, using neutral fallback''\<rparr>, h')))"

section \<open>Sample inputs\<close>

text \<open>
  Concrete inputs the theorems below evaluate the services at: a wallet address in its
  checksummed spelling, events between the wallet and itself with value 0, a scoring
  service without a model and with an empty blacklist.
\<close>

definition sampleWallet :: string where
  "sampleWallet = ''0x5aAeb6053F3E94C9b9A09f33669435E7Ef1BeAed''"

definition sampleWalletLower :: string where
  "sampleWalletLower = ''0x5aaeb6053f3e94c9b9a09f33669435e7ef1beaed''"

definition sampleEvent :: "TxStatus \<Rightarrow> real \<Rightarrow> string \<Rightarrow> WalletEvent" where
  "sampleEvent st ts h =
     \<lparr>ev_hash = h, ev_from = sampleWallet, ev_to = Some sampleWallet, ev_value = 0,
      ev_timestamp = ts, ev_gasPrice = 0, ev_status = st, ev_input = None,
      ev_contractAddress = None\<rparr>"

definition nineEvents :: "TxStatus \<Rightarrow> real \<Rightarrow> WalletEvent list" where
  "nineEvents st ts = map (sampleEvent st ts)
     [''0x01'', ''0x02'', ''0x03'', ''0x04'', ''0x05'', ''0x06'', ''0x07'', ''0x08'', ''0x09'']"

definition noModel :: ScoringService where
  "noModel = \<lparr>model = None, featureNames = [], blacklist = []\<rparr>"

text \<open>A scoring service whose classifier answers every input with two outputs that are \<open>NaN\<close>.\<close>

definition nanModel :: ScoringService where
  "nanModel = \<lparr>model = Some (\<lambda>f. Some [NaN, NaN]),
               featureNames = [''total ether balance''], blacklist = []\<rparr>"

definition zeroFeatures :: FeatureVector where
  "zeroFeatures = \<lparr>transactionCount = 0, transactionsPerDay = 0, avgTransactionValue = 0,
       maxTransactionValue = 0, minTransactionValue = 0, accountAgeDays = 0,
       daysSinceLastTx = 365, uniqueCounterparties = 0,
       contractInteractions = 0, failedTransactions = 0,
       gasUsagePattern = 0, totalVolume = 0, balance = 0, avgGasPrice = 0,
       valueConcentration = 0, clusteringCoefficient = 0, pageRank = 0\<rparr>"

section \<open>Flag registry client: \<open>ContractService\<close>\<close>

text \<open>
  A thrown value: an \<open>Error\<close> with its message, or another value as \<open>String\<close> prints it.
\<close>

datatype exn = Error string | Thrown string

fun formatError :: "exn \<Rightarrow> string" where
  "formatError (Error m) = m"
| "formatError (Thrown s) = s"

text \<open>A thrown value inside a template string.\<close>

fun exnToString :: "exn \<Rightarrow> string" where
  "exnToString (Error m) = ''Error: '' @ m"
| "exnToString (Thrown s) = s"

definition isValidScore :: "jsnumber \<Rightarrow> bool" where
  "isValidScore score = (case score of Num r \<Rightarrow> 0 \<le> r \<and> r \<le> 100 | _ \<Rightarrow> False)"

definition isValidRiskLevel :: "string \<Rightarrow> bool" where
  "isValidRiskLevel level =
    (toLowerCase level \<in> set [''low'', ''medium'', ''high'', ''critical''])"

text \<open>\<open>validateFlaggingInputs\<close>: the error it throws, or \<open>None\<close> when it returns.\<close>

definition validateFlaggingInputs :: "string \<Rightarrow> string \<Rightarrow> jsnumber \<Rightarrow> string \<Rightarrow> exn option" where
  "validateFlaggingInputs walletAddr level score reason =
    (let addressValidation = isValidEthereumAddress walletAddr
     in if \<not> isValid addressValidation then
          Some (Error (''Invalid wallet address: '' @ join '', '' (errors addressValidation)))
        else if \<not> isValidRiskLevel level then Some (Error ''Invalid risk level'')
        else if \<not> isValidScore score then Some (Error ''Invalid reputation score'')
        else if reason = [] \<or> length reason > 500 then
          Some (Error ''Reason must be between 1 and 500 characters'')
        else None)"

text \<open>The enum value sent to the contract; \<open>None\<close> is \<open>undefined\<close>, for a string off the table.\<close>

definition riskLevelToContractValue :: "string \<Rightarrow> nat option" where
  "riskLevelToContractValue level =
    (if level = ''low'' then Some 0
     else if level = ''medium'' then Some 1
     else if level = ''high'' then Some 2
     else if level = ''critical'' then Some 3
     else None)"

record TransactionReceipt =
  rc_hash :: string
  rc_status :: "nat option"
  rc_blockNumber :: nat

record CustomReceipt =
  cr_hash :: string
  cr_status :: bool
  cr_blockNumber :: nat

definition formatReceipt :: "TransactionReceipt \<Rightarrow> CustomReceipt" where
  "formatReceipt r =
    \<lparr>cr_hash = rc_hash r, cr_status = (rc_status r = Some 1), cr_blockNumber = rc_blockNumber r\<rparr>"

text \<open>
  The contract object is a collaborator. \<open>c_flagWallet\<close> answers a call of
  \<open>contract.flagWallet(wallet, riskLevelValue, score, reason, {gasLimit})\<close>: it throws
  (a rejected call, such as a revert found when the call is prepared), or returns a
  transaction with its hash, whose \<open>wait\<close> then throws, or gives no receipt, or a receipt.
  \<open>c_isWalletFlagged\<close> answers the view call.
\<close>

datatype waitOutcome = WaitThrows exn | WaitNull | WaitReceipt TransactionReceipt

datatype sendOutcome = SendThrows exn | Sent string waitOutcome

record Contract =
  c_flagWallet :: "string \<Rightarrow> nat option \<Rightarrow> jsnumber \<Rightarrow> string \<Rightarrow> nat \<Rightarrow> sendOutcome"
  c_isWalletFlagged :: "string \<Rightarrow> exn + bool"

text \<open>The contract turned the call down: anything but a receipt with status 1.\<close>

fun rejected :: "sendOutcome \<Rightarrow> bool" where
  "rejected (SendThrows e) = True"
| "rejected (Sent h (WaitThrows e)) = True"
| "rejected (Sent h WaitNull) = True"
| "rejected (Sent h (WaitReceipt r)) = (rc_status r \<noteq> Some 1)"

record FlagResult =
  success :: bool
  transactionHash :: "string option"
  receipt :: "CustomReceipt option"
  error :: "string option"

text \<open>A call of \<open>contract.flagWallet\<close> that the service made.\<close>

datatype contractCall = FlagWalletTx string "nat option" jsnumber string nat

definition GAS_LIMIT :: nat where "GAS_LIMIT = 500000"

text \<open>
  The \<open>try\<close> block of \<open>flagWallet\<close>: \<open>Inl\<close> what it throws, \<open>Inr\<close> what it returns, with the
  contract calls made.
\<close>

definition flagWalletTry ::
  "Contract option \<Rightarrow> string \<Rightarrow> string \<Rightarrow> jsnumber \<Rightarrow> string
    \<Rightarrow> (exn + FlagResult) \<times> contractCall list" where
  "flagWalletTry contract walletAddr level score reason =
    (case validateFlaggingInputs walletAddr level score reason of
       Some e \<Rightarrow> (Inl e, [])
     | None \<Rightarrow>
        (case contract of
           None \<Rightarrow> (Inl (Error ''Contract not initialized''), [])
         | Some c \<Rightarrow>
            (let riskLevelValue = riskLevelToContractValue level;
                 call = FlagWalletTx walletAddr riskLevelValue score reason GAS_LIMIT
             in case c_flagWallet c walletAddr riskLevelValue score reason GAS_LIMIT of
                  SendThrows e \<Rightarrow> (Inl e, [call])
                | Sent hash w \<Rightarrow>
                   (case w of
                      WaitThrows e \<Rightarrow> (Inl e, [call])
                    | WaitNull \<Rightarrow>
                        (Inr \<lparr>success = False, transactionHash = Some hash, receipt = None,
                              error = Some ''Transaction reverted''\<rparr>, [call])
                    | WaitReceipt r \<Rightarrow>
                        if rc_status r = Some 1 then
                          (Inr \<lparr>success = True, transactionHash = Some hash,
                                receipt = Some (formatReceipt r), error = None\<rparr>, [call])
                        else
                          (Inr \<lparr>success = False, transactionHash = Some hash, receipt = None,
                                error = Some ''Transaction reverted''\<rparr>, [call])))))"

text \<open>
  \<open>flagWallet\<close>: the \<open>try\<close> block under its \<open>catch\<close>, which turns a thrown value into a
  failure result. The reason defaults when the argument is missing. \<open>Inl\<close> would be an
  exception leaving \<open>flagWallet\<close>.
\<close>

definition flagWallet ::
  "Contract option \<Rightarrow> string \<Rightarrow> string \<Rightarrow> jsnumber \<Rightarrow> string option
    \<Rightarrow> (exn + FlagResult) \<times> contractCall list" where
  "flagWallet contract walletAddr level score reasonArg =
    (let reason = (case reasonArg of None \<Rightarrow> ''Suspicious activity detected'' | Some r \<Rightarrow> r)
     in case flagWalletTry contract walletAddr level score reason of
          (Inl e, calls) \<Rightarrow>
            (Inr \<lparr>success = False, transactionHash = None, receipt = None,
                  error = Some (formatError e)\<rparr>, calls)
        | (Inr r, calls) \<Rightarrow> (Inr r, calls))"

text \<open>\<open>isWalletFlagged\<close>: the answer of the view call, or the error it rethrows.\<close>

definition isWalletFlagged :: "Contract option \<Rightarrow> string \<Rightarrow> exn + bool" where
  "isWalletFlagged contract walletAddr =
    (case contract of
       None \<Rightarrow> Inl (Error (''Failed to check wallet flag: ''
                              @ exnToString (Error ''Contract not initialized'')))
     | Some c \<Rightarrow>
        (case c_isWalletFlagged c walletAddr of
           Inl e \<Rightarrow> Inl (Error (''Failed to check wallet flag: '' @ exnToString e))
         | Inr b \<Rightarrow> Inr b))"

section \<open>Monitor coordinator: \<open>WalletMonitorService\<close>\<close>

record MonitoringConfig =
  includeTransactions :: bool
  includeTokenTransfers :: bool
  includeInternalTransactions :: bool
  fromBlock :: "nat option"

text \<open>A \<open>Partial<WalletMonitoringConfig>\<close>: each field may be missing.\<close>

record PartialConfig =
  p_includeTransactions :: "bool option"
  p_includeTokenTransfers :: "bool option"
  p_includeInternalTransactions :: "bool option"
  p_fromBlock :: "nat option option"

definition MONITORING_CONFIG :: MonitoringConfig where
  "MONITORING_CONFIG =
    \<lparr>includeTransactions = True, includeTokenTransfers = True,
     includeInternalTransactions = False, fromBlock = None\<rparr>"

text \<open>The object spread \<open>{ ...this.MONITORING_CONFIG, ...config }\<close>.\<close>

definition mergeConfig :: "PartialConfig option \<Rightarrow> MonitoringConfig" where
  "mergeConfig cfg =
    (case cfg of
       None \<Rightarrow> MONITORING_CONFIG
     | Some p \<Rightarrow>
        \<lparr>includeTransactions =
           (case p_includeTransactions p of Some b \<Rightarrow> b
            | None \<Rightarrow> includeTransactions MONITORING_CONFIG),
         includeTokenTransfers =
           (case p_includeTokenTransfers p of Some b \<Rightarrow> b
            | None \<Rightarrow> includeTokenTransfers MONITORING_CONFIG),
         includeInternalTransactions =
           (case p_includeInternalTransactions p of Some b \<Rightarrow> b
            | None \<Rightarrow> includeInternalTransactions MONITORING_CONFIG),
         fromBlock =
           (case p_fromBlock p of Some b \<Rightarrow> b | None \<Rightarrow> fromBlock MONITORING_CONFIG)\<rparr>)"

record WalletMonitor =
  mon_walletAddress :: string
  startedAt :: int
  mon_lastActivity :: int
  eventCount :: nat
  lastScore :: "ScoringResult option"
  isActive :: bool
  config :: MonitoringConfig

record Coordinator =
  monitoredWallets :: "string \<rightharpoonup> WalletMonitor"
  eventBuffer :: "string \<rightharpoonup> WalletEvent list"

text \<open>
  The calls the coordinator makes on its collaborators (the hub, the data stream, the flag
  registry client), in their order. What the scoring engine and the collaborators answer
  is an argument of the operation that asks. The score of \<open>BroadcastScoreUpdate\<close> is an
  \<open>option\<close> because one call site can pass \<open>null\<close>.
\<close>

datatype call =
    BroadcastScoreUpdate string "ScoringResult option" "ScoringResult option"
  | BroadcastTransactionAlert string WalletEvent RiskLevel jsnumber
  | BroadcastWalletFlagged string RiskLevel jsnumber "string option"
  | PublishScoreToStream string jsnumber RiskLevel int
  | FlagWallet string string jsnumber string
  | ContractCall contractCall
  | SubscribeToWallet string
  | UnsubscribeFromWallet string

text \<open>
  The calls that write to the flag registry: the call of \<open>contractService.flagWallet\<close>
  and the contract call it makes; and the broadcast that follows a successful flag.
\<close>

fun isFlagWallet :: "call \<Rightarrow> bool" where
  "isFlagWallet (FlagWallet w l s r) = True"
| "isFlagWallet c = False"

fun isContractCall :: "call \<Rightarrow> bool" where
  "isContractCall (ContractCall c) = True"
| "isContractCall c = False"

fun isBroadcastWalletFlagged :: "call \<Rightarrow> bool" where
  "isBroadcastWalletFlagged (BroadcastWalletFlagged w l s h) = True"
| "isBroadcastWalletFlagged c = False"

definition SCORE_UPDATE_THRESHOLD :: real where "SCORE_UPDATE_THRESHOLD = 5"
definition FLAGGING_THRESHOLD :: real where "FLAGGING_THRESHOLD = 40"

definition isSignificantScoreChange :: "ScoringResult \<Rightarrow> ScoringResult \<Rightarrow> bool" where
  "isSignificantScoreChange previous current =
    (let scoreDiff = js_abs (js_minus (reputationScore previous) (reputationScore current));
         riskLevelChanged = (riskLevel previous \<noteq> riskLevel current)
     in js_ge scoreDiff (Num SCORE_UPDATE_THRESHOLD) \<or> riskLevelChanged)"

text \<open>
  The hub's \<open>broadcastTransactionAlert\<close> writes to the event object it is given: when the
  hub has its server (\<open>hubUp\<close>) and the timestamp of the event is below \<open>10\<^sup>1\<^sup>2\<close> (or
  missing), the timestamp becomes the clock reading. The object is the one the
  coordinator holds, so the write shows in the event buffer. \<open>alertTimestamp\<close> is the
  event after the call, \<open>alertBuffer\<close> the coordinator after the buffered events of a
  wallet went through the call. The clock is read once for an operation.
\<close>

definition alertTimestamp :: "bool \<Rightarrow> int \<Rightarrow> WalletEvent \<Rightarrow> WalletEvent" where
  "alertTimestamp hubUp now e =
    (if hubUp \<and> ev_timestamp e < 1000000000000 then e\<lparr>ev_timestamp := real_of_int now\<rparr>
     else e)"

definition alertBuffer :: "bool \<Rightarrow> int \<Rightarrow> Coordinator \<Rightarrow> string \<Rightarrow> Coordinator" where
  "alertBuffer hubUp now co walletAddr =
    (case eventBuffer co walletAddr of
       None \<Rightarrow> co
     | Some b \<Rightarrow>
         co\<lparr>eventBuffer := (eventBuffer co)(walletAddr \<mapsto> map (alertTimestamp hubUp now) b)\<rparr>)"

text \<open>
  \<open>bufferEvent\<close>: the event is pushed; a buffer longer than 1000 is then cut to its last
  500 events (\<open>buffer.splice(0, buffer.length - 500)\<close>).
\<close>

definition bufferEvent :: "Coordinator \<Rightarrow> string \<Rightarrow> WalletEvent \<Rightarrow> Coordinator" where
  "bufferEvent co walletAddr event =
    (let buffer = (case eventBuffer co walletAddr of None \<Rightarrow> [] | Some b \<Rightarrow> b) @ [event];
         buffer' = (if length buffer > 1000 then drop (length buffer - 500) buffer else buffer)
     in co\<lparr>eventBuffer := (eventBuffer co)(walletAddr \<mapsto> buffer')\<rparr>)"

text \<open>
  \<open>calculateAndUpdateScore\<close>; \<open>outcome\<close> is what \<open>scoringService.calculateWalletScore\<close>
  resolves to, \<open>None\<close> when it rejects (the \<open>catch\<close> then returns \<open>null\<close>). Every event of
  the call goes through \<open>broadcastTransactionAlert\<close> when a score is returned; what that
  leaves in the events is applied by the callers (\<open>alertTimestamp\<close>).
\<close>

definition calculateAndUpdateScore ::
  "Coordinator \<Rightarrow> string \<Rightarrow> WalletEvent list \<Rightarrow> ScoringResult option
    \<Rightarrow> ScoringResult option \<times> Coordinator \<times> call list" where
  "calculateAndUpdateScore co walletAddr events outcome =
    (case monitoredWallets co walletAddr of
       None \<Rightarrow> (None, co, [])
     | Some monitor \<Rightarrow>
        (case outcome of
           None \<Rightarrow> (None, co, [])
         | Some newScore \<Rightarrow>
            (let previousScore = lastScore monitor;
                 co' = co\<lparr>monitoredWallets :=
                          (monitoredWallets co)(walletAddr \<mapsto> monitor\<lparr>lastScore := Some newScore\<rparr>)\<rparr>;
                 update =
                   (if events \<noteq> [] then
                      [BroadcastScoreUpdate walletAddr (Some newScore) previousScore]
                    else (case previousScore of
                            None \<Rightarrow> [BroadcastScoreUpdate walletAddr (Some newScore) previousScore]
                          | Some p \<Rightarrow>
                              if isSignificantScoreChange p newScore
                              then [BroadcastScoreUpdate walletAddr (Some newScore) previousScore]
                              else []));
                 publish = [PublishScoreToStream walletAddr (reputationScore newScore)
                              (riskLevel newScore) (timestamp newScore)];
                 alerts = map (\<lambda>e. BroadcastTransactionAlert walletAddr e (riskLevel newScore)
                                  (case previousScore of
                                     Some p \<Rightarrow> js_minus (reputationScore newScore)
                                                         (reputationScore p)
                                   | None \<Rightarrow> Num 0)) events
             in (Some newScore, co', update @ publish @ alerts))))"

text \<open>
  \<open>checkAndFlagWallet\<close>: the calls it makes. An error of \<open>isWalletFlagged\<close> is caught and
  logged by the outer \<open>catch\<close>, one of \<open>flagWallet\<close> by the inner one.
\<close>

definition checkAndFlagWallet ::
  "Contract option \<Rightarrow> string \<Rightarrow> ScoringResult \<Rightarrow> WalletEvent list \<Rightarrow> call list" where
  "checkAndFlagWallet contract walletAddr score events =
    (if js_less (reputationScore score) (Num FLAGGING_THRESHOLD) \<and> riskLevel score = CRITICAL then
       (case isWalletFlagged contract walletAddr of
          Inl e \<Rightarrow> []
        | Inr isAlreadyFlagged \<Rightarrow>
           if isAlreadyFlagged then []
           else
             (let reason = (if explanation score \<noteq> [] then explanation score
                            else ''Critical risk score detected'');
                  level = riskLevelString (riskLevel score);
                  (flagResult, txs) = flagWallet contract walletAddr level
                                        (reputationScore score) (Some reason)
              in FlagWallet walletAddr level (reputationScore score) reason
                 # map ContractCall txs
                 @ (case flagResult of
                      Inl e \<Rightarrow> []
                    | Inr res \<Rightarrow>
                        if success res then
                          [BroadcastWalletFlagged walletAddr (riskLevel score)
                             (reputationScore score) (transactionHash res)]
                        else [])))
     else [])"

text \<open>
  One wallet of the periodic batch (the body of the loop of \<open>processBufferedEvents\<close>): a
  wallet with buffered events is scored, checked for flagging, its score broadcast, and
  its buffer emptied.
\<close>

definition processBufferedWallet ::
  "Contract option \<Rightarrow> Coordinator \<Rightarrow> string \<Rightarrow> ScoringResult option \<Rightarrow> Coordinator \<times> call list" where
  "processBufferedWallet contract co walletAddr outcome =
    (case eventBuffer co walletAddr of
       None \<Rightarrow> (co, [])
     | Some events \<Rightarrow>
        if events = [] then (co, [])
        else
          (let (newScore, co1, calls) = calculateAndUpdateScore co walletAddr events outcome;
               more = (case newScore of
                         None \<Rightarrow> []
                       | Some s \<Rightarrow>
                           checkAndFlagWallet contract walletAddr s events
                           @ [BroadcastScoreUpdate walletAddr (Some s)
                                (case monitoredWallets co1 walletAddr of
                                   None \<Rightarrow> None | Some m \<Rightarrow> lastScore m)])
           in (co1\<lparr>eventBuffer := (eventBuffer co1)(walletAddr \<mapsto> [])\<rparr>, calls @ more)))"

text \<open>\<open>processBufferedEvents\<close> over the wallets of the buffer, each with its scoring outcome.\<close>

fun processBufferedEvents ::
  "Contract option \<Rightarrow> Coordinator \<Rightarrow> (string \<times> ScoringResult option) list
    \<Rightarrow> Coordinator \<times> call list" where
  "processBufferedEvents contract co [] = (co, [])"
| "processBufferedEvents contract co ((w, outcome) # rest) =
    (let (co1, calls1) = processBufferedWallet contract co w outcome;
         (co2, calls2) = processBufferedEvents contract co1 rest
     in (co2, calls1 @ calls2))"

text \<open>The guard of \<open>handleWalletEvent\<close>: \<open>!monitor || !monitor.isActive\<close>.\<close>

definition dropsEvent :: "Coordinator \<Rightarrow> string \<Rightarrow> bool" where
  "dropsEvent co walletAddr =
    (case monitoredWallets co walletAddr of None \<Rightarrow> True | Some monitor \<Rightarrow> \<not> isActive monitor)"

text \<open>
  \<open>handleWalletEvent\<close> with \<open>processSingleEvent\<close> inlined: the monitor's counters are
  updated, the event is scored together with the buffered events (all of them then go
  through the transaction alert), the event is announced, and then buffered.
\<close>

definition handleWalletEvent ::
  "bool \<Rightarrow> int \<Rightarrow> Coordinator \<Rightarrow> string \<Rightarrow> WalletEvent \<Rightarrow> ScoringResult option
    \<Rightarrow> Coordinator \<times> call list" where
  "handleWalletEvent hubUp now co walletAddr event outcome =
    (if dropsEvent co walletAddr then (co, [])
     else
       (case monitoredWallets co walletAddr of
          None \<Rightarrow> (co, [])
        | Some monitor \<Rightarrow>
           (let co1 = co\<lparr>monitoredWallets := (monitoredWallets co)(walletAddr \<mapsto>
                           monitor\<lparr>mon_lastActivity := now, eventCount := eventCount monitor + 1\<rparr>)\<rparr>;
                bufferedEvents = (case eventBuffer co1 walletAddr of None \<Rightarrow> [] | Some b \<Rightarrow> b);
                (newScore, co2, calls) =
                   calculateAndUpdateScore co1 walletAddr (event # bufferedEvents) outcome
            in (case newScore of
                  None \<Rightarrow> (bufferEvent co2 walletAddr event, calls)
                | Some s \<Rightarrow>
                   (let event' = alertTimestamp hubUp now event;
                        co3 = alertBuffer hubUp now co2 walletAddr;
                        more = [BroadcastTransactionAlert walletAddr event' (riskLevel s) (Num 0),
                                BroadcastScoreUpdate walletAddr (Some s)
                                  (case monitoredWallets co3 walletAddr of
                                     None \<Rightarrow> None | Some m \<Rightarrow> lastScore m)]
                    in (bufferEvent co3 walletAddr event', calls @ more))))))"

text \<open>
  What the chain collaborator answers to the lookups of \<open>startMonitoringWallet\<close>: a lookup
  before the log query raises; the transaction count is 0; the log query raises, and the
  \<open>catch\<close> makes one basic event; or the events built from the logs (at most twenty),
  together with the basic event that the same \<open>catch\<close> makes when a later statement of
  the block raises.
\<close>

datatype chainData =
    ChainFails
  | NoTransactions
  | LogsFail WalletEvent
  | Logs "WalletEvent list" WalletEvent

text \<open>
  The initial scoring of \<open>startMonitoringWallet\<close>, with the outcomes of its first and
  second scoring call. Historical events are scored, announced one by one and followed by
  a score update. That update is made with \<open>null\<close> when the first scoring returned nothing:
  the hub then raises after it has sent, the \<open>catch\<close> of the log query adds the basic
  event, and the events are scored again.
\<close>

definition initialScoring ::
  "bool \<Rightarrow> int \<Rightarrow> Coordinator \<Rightarrow> string \<Rightarrow> chainData \<Rightarrow> ScoringResult option
    \<Rightarrow> ScoringResult option \<Rightarrow> ScoringResult option \<times> Coordinator \<times> call list" where
  "initialScoring hubUp now co walletAddr chain outcome1 outcome2 =
    (case chain of
       ChainFails \<Rightarrow> calculateAndUpdateScore co walletAddr [] outcome1
     | NoTransactions \<Rightarrow> calculateAndUpdateScore co walletAddr [] outcome1
     | LogsFail basic \<Rightarrow> calculateAndUpdateScore co walletAddr [basic] outcome1
     | Logs initialEvents basic \<Rightarrow>
        if initialEvents = [] then calculateAndUpdateScore co walletAddr [] outcome1
        else
          (let (initialScore, co1, calls1) =
                  calculateAndUpdateScore co walletAddr initialEvents outcome1;
               events1 = (case initialScore of
                            None \<Rightarrow> initialEvents
                          | Some s \<Rightarrow> map (alertTimestamp hubUp now) initialEvents);
               alerts = map (\<lambda>e. BroadcastTransactionAlert walletAddr e
                                    (case initialScore of None \<Rightarrow> LOW | Some s \<Rightarrow> riskLevel s)
                                    (Num 0)) events1;
               events2 = map (alertTimestamp hubUp now) events1;
               update = [BroadcastScoreUpdate walletAddr initialScore None]
           in (case initialScore of
                 Some s \<Rightarrow> (Some s, co1, calls1 @ alerts @ update)
               | None \<Rightarrow>
                  (let events3 = (if hubUp then events2 @ [basic] else events2);
                       (score2, co2, calls2) =
                          calculateAndUpdateScore co1 walletAddr events3 outcome2
                   in (score2, co2, calls1 @ alerts @ update @ calls2)))))"

record MonitorReply =
  mr_success :: bool
  existingScore :: "ScoringResult option"

text \<open>
  \<open>startMonitoringWallet\<close>: an invalid address fails; a monitored wallet answers with its
  last score; otherwise the monitor is created active, the wallet is subscribed upstream
  (a failure there is logged only), the monitor is stored and the initial score computed.
\<close>

definition startMonitoringWallet ::
  "bool \<Rightarrow> int \<Rightarrow> Coordinator \<Rightarrow> string \<Rightarrow> PartialConfig option \<Rightarrow> chainData
    \<Rightarrow> ScoringResult option \<Rightarrow> ScoringResult option
    \<Rightarrow> MonitorReply \<times> Coordinator \<times> call list" where
  "startMonitoringWallet hubUp now co walletAddr cfg chain outcome1 outcome2 =
    (let validation = isValidEthereumAddress walletAddr
     in if \<not> isValid validation then (\<lparr>mr_success = False, existingScore = None\<rparr>, co, [])
        else
          (case normalized validation of
             None \<Rightarrow> (\<lparr>mr_success = False, existingScore = None\<rparr>, co, [])
           | Some normalizedAddress \<Rightarrow>
              (case monitoredWallets co normalizedAddress of
                 Some existingMonitor \<Rightarrow>
                   (\<lparr>mr_success = True, existingScore = lastScore existingMonitor\<rparr>, co, [])
               | None \<Rightarrow>
                  (let monitor = \<lparr>mon_walletAddress = normalizedAddress, startedAt = now,
                                  mon_lastActivity = now, eventCount = 0, lastScore = None,
                                  isActive = True, config = mergeConfig cfg\<rparr>;
                       co1 = co\<lparr>monitoredWallets :=
                                (monitoredWallets co)(normalizedAddress \<mapsto> monitor)\<rparr>;
                       (initialScore, co2, calls) =
                          initialScoring hubUp now co1 normalizedAddress chain outcome1 outcome2
                   in (\<lparr>mr_success = True, existingScore = initialScore\<rparr>, co2,
                       SubscribeToWallet normalizedAddress # calls)))))"

text \<open>
  \<open>stopMonitoringWallet\<close>; \<open>unsubscribed\<close> is whether the upstream unsubscribe returned
  (when it throws, the \<open>catch\<close> answers with a failure and nothing is removed).
\<close>

definition stopMonitoringWallet ::
  "Coordinator \<Rightarrow> string \<Rightarrow> bool \<Rightarrow> bool \<times> Coordinator \<times> call list" where
  "stopMonitoringWallet co walletAddr unsubscribed =
    (let validation = isValidEthereumAddress walletAddr
     in if \<not> isValid validation then (False, co, [])
        else
          (case normalized validation of
             None \<Rightarrow> (False, co, [])
           | Some normalizedAddress \<Rightarrow>
              (case monitoredWallets co normalizedAddress of
                 None \<Rightarrow> (False, co, [])
               | Some monitor \<Rightarrow>
                   if \<not> unsubscribed then (False, co, [UnsubscribeFromWallet normalizedAddress])
                   else
                     (True,
                      co\<lparr>monitoredWallets := (monitoredWallets co)(normalizedAddress := None),
                         eventBuffer := (eventBuffer co)(normalizedAddress := None)\<rparr>,
                      [UnsubscribeFromWallet normalizedAddress]))))"

text \<open>
  \<open>recalculateScore\<close> (the forced rescore) scores the buffered events, which then go
  through the transaction alert: \<open>Inl\<close> the error it rethrows.
\<close>

definition recalculateScore ::
  "bool \<Rightarrow> int \<Rightarrow> Coordinator \<Rightarrow> string \<Rightarrow> ScoringResult option
    \<Rightarrow> exn + (ScoringResult option \<times> Coordinator \<times> call list)" where
  "recalculateScore hubUp now co walletAddr outcome =
    (let validation = isValidEthereumAddress walletAddr
     in if \<not> isValid validation then
          Inl (Error (''Invalid wallet address: '' @ join '', '' (errors validation)))
        else
          (case normalized validation of
             None \<Rightarrow> Inl (Error ''Invalid wallet address: '')
           | Some normalizedAddress \<Rightarrow>
              (case monitoredWallets co normalizedAddress of
                 None \<Rightarrow> Inl (Error ''Wallet is not being monitored'')
               | Some monitor \<Rightarrow>
                   (let bufferedEvents =
                          (case eventBuffer co normalizedAddress of None \<Rightarrow> [] | Some b \<Rightarrow> b);
                        (newScore, co1, calls) =
                          calculateAndUpdateScore co normalizedAddress bufferedEvents outcome
                    in Inr (newScore,
                            (case newScore of
                               None \<Rightarrow> co1
                             | Some s \<Rightarrow> alertBuffer hubUp now co1 normalizedAddress),
                            calls)))))"

text \<open>\<open>cleanup\<close> stops every wallet and then clears both maps.\<close>

definition cleanup :: "Coordinator \<Rightarrow> Coordinator" where
  "cleanup co = co\<lparr>monitoredWallets := Map.empty, eventBuffer := Map.empty\<rparr>"

text \<open>Every monitor in the map is active.\<close>

definition allActive :: "Coordinator \<Rightarrow> bool" where
  "allActive co = (\<forall>w m. monitoredWallets co w = Some m \<longrightarrow> isActive m)"

text \<open>
  The states of the coordinator: it starts with no monitor and no buffer, and every
  public operation, event intake and batch step leads from a state to a state.
\<close>

inductive reachable :: "Coordinator \<Rightarrow> bool" where
  initial: "reachable \<lparr>monitoredWallets = Map.empty, eventBuffer = Map.empty\<rparr>"
| start: "reachable co
            \<Longrightarrow> startMonitoringWallet hubUp now co w cfg chain outcome1 outcome2 = (reply, co', calls)
            \<Longrightarrow> reachable co'"
| stop: "reachable co \<Longrightarrow> stopMonitoringWallet co w unsubscribed = (ok, co', calls)
            \<Longrightarrow> reachable co'"
| event: "reachable co \<Longrightarrow> handleWalletEvent hubUp now co w e outcome = (co', calls)
            \<Longrightarrow> reachable co'"
| batch: "reachable co \<Longrightarrow> processBufferedEvents contract co ws = (co', calls)
            \<Longrightarrow> reachable co'"
| rescore: "reachable co \<Longrightarrow> recalculateScore hubUp now co w outcome = Inr (score, co', calls)
            \<Longrightarrow> reachable co'"
| clean: "reachable co \<Longrightarrow> reachable (cleanup co)"

section \<open>Sample collaborators\<close>

text \<open>
  A contract that turns every flag call down with the revert reason of a duplicate flag
  and reports every wallet as flagged; a contract that accepts every flag call and
  reports no wallet as flagged; a critical scoring result; a monitor as
  \<open>startMonitoringWallet\<close> creates it.
\<close>

definition alreadyFlaggedContract :: Contract where
  "alreadyFlaggedContract =
    \<lparr>c_flagWallet = (\<lambda>w v s r g.
        SendThrows (Error ''execution reverted: WalletFlagger: wallet already flagged'')),
     c_isWalletFlagged = (\<lambda>w. Inr True)\<rparr>"

definition acceptingContract :: Contract where
  "acceptingContract =
    \<lparr>c_flagWallet = (\<lambda>w v s r g.
        Sent ''0xabc'' (WaitReceipt \<lparr>rc_hash = ''0xabc'', rc_status = Some 1, rc_blockNumber = 7\<rparr>)),
     c_isWalletFlagged = (\<lambda>w. Inr False)\<rparr>"

definition criticalScore :: ScoringResult where
  "criticalScore =
    \<lparr>walletAddress = sampleWallet, reputationScore = Num 20, riskLevel = CRITICAL,
     confidence = Num 0.5,
     features = zeroFeatures, timestamp = 1700000000, sr_transactionCount = 1,
     flags = [''critical_risk''], explanation = ''Risk level: critical.''\<rparr>"

definition sampleMonitor :: WalletMonitor where
  "sampleMonitor =
    \<lparr>mon_walletAddress = sampleWallet, startedAt = 0, mon_lastActivity = 0, eventCount = 0,
     lastScore = None, isActive = True, config = MONITORING_CONFIG\<rparr>"

section \<open>Theorems\<close>

subsection \<open>Address codec\<close>

text \<open>
  The hash and the checksum on published vectors: Keccak-256 of the empty string, and an
  address of the EIP-55 test set.
\<close>

lemma keccak256_empty:
  "keccak256 [] =
    [197, 210, 70, 1, 134, 247, 35, 60, 146, 126, 125, 178, 220, 199, 3, 192,
     229, 0, 182, 83, 202, 130, 39, 59, 123, 250, 216, 4, 93, 133, 164, 112]"
  by code_simp

lemma getAddress_sample: "getAddress sampleWalletLower = Some sampleWallet"
  by code_simp

lemma toLowerCase_sample:
  "toLowerCase sampleWalletLower = sampleWalletLower"
  "toLowerCase sampleWallet = sampleWalletLower"
  "toLowerCase zeroAddress = zeroAddress"
  "toLowerCase ''critical'' = ''critical''"
  "toLowerCase ''low'' = ''low''"
  by code_simp+

lemma sample_format: "matchesAddressFormat sampleWalletLower" "sampleWalletLower \<noteq> []"
  by code_simp+

lemma isValidEthereumAddress_sample:
  "isValidEthereumAddress sampleWalletLower
     = \<lparr>isValid = True, errors = [], normalized = Some sampleWallet\<rparr>"
  by (simp add: isValidEthereumAddress_def getAddress_sample sample_format)

lemma sampleWallet_strings:
  "sampleWallet \<noteq> zeroAddress" "sampleWalletLower \<noteq> sampleWallet"
  by (simp_all add: sampleWallet_def zeroAddress_def sampleWalletLower_def)

subsection \<open>Rate limit of the hub\<close>

lemma checkRateLimit_in_window:
  assumes "mc cid = Some ri" "now < resetTime ri"
  shows "checkRateLimit now mc cid
           = (count ri + 1 \<le> maxMessages, mc(cid \<mapsto> ri\<lparr>count := count ri + 1\<rparr>))"
  using assms by (auto simp: checkRateLimit_def Let_def)

lemma checkRateLimit_new_window:
  assumes "case mc cid of None \<Rightarrow> True | Some ri \<Rightarrow> now \<ge> resetTime ri"
  shows "checkRateLimit now mc cid
           = (True, mc(cid \<mapsto> \<lparr>count = 1, resetTime = now + windowMs\<rparr>))"
  using assms by (auto simp: checkRateLimit_def Let_def maxMessages_def split: option.splits)

lemma handleSubscribe_frame:
  assumes "handleSubscribe now fresh mc c d = (c', mc', out)"
  shows "connId c' = connId c" "connected c' = connected c"
        "mc' = snd (checkRateLimit now mc (connId c))"
  using assms
  by (auto simp: handleSubscribe_def Let_def split: prod.splits if_splits sum.splits)

lemma receiveSubscribes_count:
  assumes "mc (connId c) = Some ri" "\<forall>m \<in> set ms. fst m < resetTime ri"
    and "receiveSubscribes fresh ms mc c = (c', mc', outs)"
  shows "mc' (connId c) = Some (ri\<lparr>count := count ri + length ms\<rparr>) \<and> connId c' = connId c
         \<and> connected c' = connected c \<and> length outs = length ms"
  using assms
proof (induction ms arbitrary: mc c ri outs c' mc')
  case Nil
  then show ?case by simp
next
  case (Cons m ms)
  obtain c1 mc1 out1 where h: "handleSubscribe (fst m) fresh mc c (snd m) = (c1, mc1, out1)"
    by (metis prod_cases3)
  obtain c2 mc2 outs2 where r: "receiveSubscribes fresh ms mc1 c1 = (c2, mc2, outs2)"
    by (metis prod_cases3)
  from Cons.prems have lt: "fst m < resetTime ri" by simp
  have mc1: "mc1 = mc(connId c \<mapsto> ri\<lparr>count := count ri + 1\<rparr>)"
    using handleSubscribe_frame(3)[OF h] checkRateLimit_in_window[where mc=mc and cid="connId c" and ri=ri and now="fst m", OF Cons.prems(1) lt] by simp
  have id1: "connId c1 = connId c" "connected c1 = connected c"
    using handleSubscribe_frame[OF h] by simp_all
  have a: "mc1 (connId c1) = Some (ri\<lparr>count := count ri + 1\<rparr>)" using mc1 id1 by simp
  have b: "\<forall>m \<in> set ms. fst m < resetTime (ri\<lparr>count := count ri + 1\<rparr>)"
    using Cons.prems(2) by simp
  from Cons.IH[OF a b r] id1 Cons.prems(3) h r show ?case by (auto)
qed


lemma receiveSubscribes_append:
  "receiveSubscribes f (xs @ ys) mc c =
    (let (c1, mc1, o1) = receiveSubscribes f xs mc c;
         (c2, mc2, o2) = receiveSubscribes f ys mc1 c1
     in (c2, mc2, o1 @ o2))"
  by (induction xs arbitrary: mc c) (auto simp: Let_def split: prod.splits)

lemma handleSubscribe_rejected:
  assumes "\<not> fst (checkRateLimit now mc (connId c))" "connected c"
  shows "handleSubscribe now fresh mc c d =
          (c\<lparr>lastActivity := now\<rparr>, snd (checkRateLimit now mc (connId c)),
           [(connId c, ErrorMessage ''RATE_LIMIT_EXCEEDED'' ''Too many messages, please slow down'' True)])"
  using assms
  by (auto simp: handleSubscribe_def Let_def sendErrorMessage_def sendMessage_def
           split: prod.splits)


lemma handleSubscribe_passed:
  assumes "fst (checkRateLimit now mc (connId c))" "connected c"
  shows "fst (handleSubscribe now fresh mc c d) =
           (case validateSubscribeData fresh d of
              Inl errs \<Rightarrow> c\<lparr>lastActivity := now\<rparr>
            | Inr (w, sid) \<Rightarrow>
                if length (subscribedWallets c) \<ge> maxSubscriptions then c\<lparr>lastActivity := now\<rparr>
                else c\<lparr>lastActivity := now, subscribedWallets := set_add w (subscribedWallets c),
                       sessionId := Some sid\<rparr>)"
    and "snd (snd (handleSubscribe now fresh mc c d)) =
           (case validateSubscribeData fresh d of
              Inl errs \<Rightarrow> [(connId c, ErrorMessage ''INVALID_SUBSCRIPTION'' (join '', '' errs) True)]
            | Inr (w, sid) \<Rightarrow>
                if length (subscribedWallets c) \<ge> maxSubscriptions
                then [(connId c, ErrorMessage ''SUBSCRIPTION_LIMIT_EXCEEDED''
                                   ''Maximum 50 subscriptions allowed'' True)]
                else [(connId c, SubscribeMessage w sid)])"
  using assms
  by (auto simp: handleSubscribe_def Let_def sendErrorMessage_def sendMessage_def
           split: prod.splits sum.splits)

lemma receiveSubscribes_no_payload:
  "subscribedWallets (fst (receiveSubscribes fresh (replicate n (t, None)) mc c)) = subscribedWallets c
   \<and> sessionId (fst (receiveSubscribes fresh (replicate n (t, None)) mc c)) = sessionId c"
proof (induction n arbitrary: mc c)
  case 0
  then show ?case by simp
next
  case (Suc n)
  obtain c1 mc1 out1 where h: "handleSubscribe t fresh mc c None = (c1, mc1, out1)"
    by (metis prod_cases3)
  have "subscribedWallets c1 = subscribedWallets c \<and> sessionId c1 = sessionId c"
    using h by (auto simp: handleSubscribe_def validateSubscribeData_def Let_def
                     split: prod.splits if_splits)
  then show ?case using Suc.IH[of mc1 c1] h by (simp add: split_def Let_def)
qed

lemma validateSubscribeData_sample:
  "validateSubscribeData fresh (Some \<lparr>wallet = Str sampleWalletLower, sd_sessionId = Absent\<rparr>)
     = Inr (sampleWallet, fresh)"
proof -
  have "sampleWalletLower \<noteq> []" by (simp add: sampleWalletLower_def)
  then show ?thesis
    by (simp add: validateSubscribeData_def isValidEthereumAddress_sample Let_def)
qed

text \<open>
  C8. For one connection, take 101 subscribe messages (the messages the hub rate-limits)
  that arrive within one rate-limit window of 60 seconds: the first of them opens the
  window and all arrive before it closes. The 100th message passes the rate check and is
  processed: its payload is validated, and a valid payload under the subscription limit
  is stored in the subscription set and confirmed with a \<open>subscribe\<close> frame (an invalid one
  is answered with \<open>INVALID_SUBSCRIPTION\<close>, one over the limit with
  \<open>SUBSCRIPTION_LIMIT_EXCEEDED\<close>). The 101st fails the check, is answered with the
  recoverable error \<open>RATE_LIMIT_EXCEEDED\<close> and is dropped: whatever its payload, the
  connection keeps its subscriptions and session, only its activity stamp changes.
\<close>

theorem rate_limit_100th_accepted_101st_rejected:
  assumes len: "length ms = 101"
    and opens: "case mc (connId c) of None \<Rightarrow> True | Some ri \<Rightarrow> fst (hd ms) \<ge> resetTime ri"
    and window: "\<forall>m \<in> set ms. fst m < fst (hd ms) + windowMs"
    and live: "connected c"
  shows "case receiveSubscribes fresh (take 99 ms) mc c of (c99, mc99, outs99) \<Rightarrow>
         case receiveSubscribes fresh (take 100 ms) mc c of (c100, mc100, outs100) \<Rightarrow>
         case receiveSubscribes fresh ms mc c of (c101, mc101, outs) \<Rightarrow>
             fst (checkRateLimit (fst (ms ! 99)) mc99 (connId c))
           \<and> (case validateSubscribeData fresh (snd (ms ! 99)) of
                 Inl errs \<Rightarrow>
                     outs ! 99 = [(connId c, ErrorMessage ''INVALID_SUBSCRIPTION''
                                               (join '', '' errs) True)]
                   \<and> c100 = c99\<lparr>lastActivity := fst (ms ! 99)\<rparr>
               | Inr (w, sid) \<Rightarrow>
                   if length (subscribedWallets c99) \<ge> maxSubscriptions then
                       outs ! 99 = [(connId c, ErrorMessage ''SUBSCRIPTION_LIMIT_EXCEEDED''
                                                 ''Maximum 50 subscriptions allowed'' True)]
                     \<and> c100 = c99\<lparr>lastActivity := fst (ms ! 99)\<rparr>
                   else
                       outs ! 99 = [(connId c, SubscribeMessage w sid)]
                     \<and> c100 = c99\<lparr>lastActivity := fst (ms ! 99),
                                   subscribedWallets := set_add w (subscribedWallets c99),
                                   sessionId := Some sid\<rparr>)
           \<and> \<not> fst (checkRateLimit (fst (ms ! 100)) mc100 (connId c))
           \<and> outs ! 100 = [(connId c, ErrorMessage ''RATE_LIMIT_EXCEEDED''
                                          ''Too many messages, please slow down'' True)]
           \<and> c101 = c100\<lparr>lastActivity := fst (ms ! 100)\<rparr>"
proof -
  obtain m0 rest where ms: "ms = m0 # rest" using len by (cases ms) auto
  define r where "r = fst m0 + windowMs"
  define ri where "ri = \<lparr>count = 1, resetTime = r\<rparr>"
  obtain c1 mc1 out1 where h1: "handleSubscribe (fst m0) fresh mc c (snd m0) = (c1, mc1, out1)"
    by (metis prod_cases3)
  have opens': "case mc (connId c) of None \<Rightarrow> True | Some ri \<Rightarrow> fst m0 \<ge> resetTime ri"
    using opens by (auto simp: ms split: option.splits)
  have mc1: "mc1 = mc(connId c \<mapsto> ri)"
    using handleSubscribe_frame(3)[OF h1]
      checkRateLimit_new_window[where mc=mc and cid="connId c" and now="fst m0", OF opens']
    by (simp add: ri_def r_def)
  have c1: "connId c1 = connId c" "connected c1" using handleSubscribe_frame[OF h1] live by simp_all
  have mc1c: "mc1 (connId c1) = Some ri" using mc1 c1 by simp
  have win: "\<forall>m \<in> set ms. fst m < resetTime ri" using window by (simp add: ms ri_def r_def)
  obtain c99 mc99 outs99 where r99: "receiveSubscribes fresh (take 99 ms) mc c = (c99, mc99, outs99)"
    by (metis prod_cases3)
  obtain c99' mc99' outs99' where r98: "receiveSubscribes fresh (take 98 rest) mc1 c1 = (c99', mc99', outs99')"
    by (metis prod_cases3)
  have t99: "take 99 ms = m0 # take 98 rest" by (simp add: ms take_Cons')
  have eq99: "c99 = c99'" "mc99 = mc99'" "outs99 = out1 # outs99'"
    using r99 r98 h1 by (simp_all add: t99)
  have win98: "\<forall>m \<in> set (take 98 rest). fst m < resetTime ri"
    using win by (auto simp: ms dest: in_set_takeD)
  have l98: "length (take 98 rest) = 98" using len by (simp add: ms)
  from receiveSubscribes_count[OF mc1c win98 r98]
  have s99: "mc99 (connId c) = Some (ri\<lparr>count := 99\<rparr>)" "connId c99 = connId c" "connected c99"
            "length outs99 = 99"
    using c1 l98 eq99 by (simp_all add: ri_def)
  have t99lt: "fst (ms ! 99) < resetTime (ri\<lparr>count := 99\<rparr>)" "fst (ms ! 100) < resetTime ri"
    using win len by (simp_all)
  obtain c100 mc100 out100 where
    h100: "handleSubscribe (fst (ms ! 99)) fresh mc99 c99 (snd (ms ! 99)) = (c100, mc100, out100)"
    by (metis prod_cases3)
  have crl99: "checkRateLimit (fst (ms ! 99)) mc99 (connId c)
                 = (True, mc99(connId c \<mapsto> ri\<lparr>count := 100\<rparr>))"
    using checkRateLimit_in_window[where mc=mc99 and cid="connId c" and ri="ri\<lparr>count := 99\<rparr>" and now="fst (ms ! 99)", OF s99(1) t99lt(1)]
    by (simp add: maxMessages_def)
  have s100: "mc100 (connId c) = Some (ri\<lparr>count := 100\<rparr>)" "connId c100 = connId c" "connected c100"
    using handleSubscribe_frame[OF h100] s99 crl99 by simp_all
  have crl100: "checkRateLimit (fst (ms ! 100)) mc100 (connId c)
                 = (False, mc100(connId c \<mapsto> ri\<lparr>count := 101\<rparr>))"
    using checkRateLimit_in_window[where mc=mc100 and cid="connId c" and ri="ri\<lparr>count := 100\<rparr>" and now="fst (ms ! 100)", OF s100(1)] t99lt(2)
    by (simp add: maxMessages_def)
  have h101: "handleSubscribe (fst (ms ! 100)) fresh mc100 c100 (snd (ms ! 100)) =
          (c100\<lparr>lastActivity := fst (ms ! 100)\<rparr>, mc100(connId c \<mapsto> ri\<lparr>count := 101\<rparr>),
           [(connId c, ErrorMessage ''RATE_LIMIT_EXCEEDED'' ''Too many messages, please slow down'' True)])"
    using handleSubscribe_rejected[where now="fst (ms ! 100)" and mc=mc100 and c=c100 and fresh=fresh and d="snd (ms ! 100)"] crl100 s100
    by simp
  have t100: "take 100 ms = take 99 ms @ [ms ! 99]"
    using len take_Suc_conv_app_nth[of 99 ms] by simp
  have split: "ms = take 100 ms @ [ms ! 100]"
    using len take_Suc_conv_app_nth[of 100 ms] by simp
  have r100: "receiveSubscribes fresh (take 100 ms) mc c = (c100, mc100, outs99 @ [out100])"
    by (subst t100, subst receiveSubscribes_append) (simp add: r99 h100)
  have full: "receiveSubscribes fresh ms mc c =
      (c100\<lparr>lastActivity := fst (ms ! 100)\<rparr>, mc100(connId c \<mapsto> ri\<lparr>count := 101\<rparr>),
       (outs99 @ [out100]) @ [[(connId c, ErrorMessage ''RATE_LIMIT_EXCEEDED''
                                       ''Too many messages, please slow down'' True)]])"
    by (subst split, subst receiveSubscribes_append) (simp add: r100 h101)
  have pass: "fst (checkRateLimit (fst (ms ! 99)) mc99 (connId c99))"
    using crl99 s99(2) by simp
  note p = handleSubscribe_passed[where now="fst (ms ! 99)" and mc=mc99 and c=c99 and fresh=fresh
             and d="snd (ms ! 99)", OF pass s99(3), unfolded h100 s99(2), simplified]
  have processed: "(case validateSubscribeData fresh (snd (ms ! 99)) of
                 Inl errs \<Rightarrow>
                     out100 = [(connId c, ErrorMessage ''INVALID_SUBSCRIPTION''
                                               (join '', '' errs) True)]
                   \<and> c100 = c99\<lparr>lastActivity := fst (ms ! 99)\<rparr>
               | Inr (w, sid) \<Rightarrow>
                   if length (subscribedWallets c99) \<ge> maxSubscriptions then
                       out100 = [(connId c, ErrorMessage ''SUBSCRIPTION_LIMIT_EXCEEDED''
                                                 ''Maximum 50 subscriptions allowed'' True)]
                     \<and> c100 = c99\<lparr>lastActivity := fst (ms ! 99)\<rparr>
                   else
                       out100 = [(connId c, SubscribeMessage w sid)]
                     \<and> c100 = c99\<lparr>lastActivity := fst (ms ! 99),
                                   subscribedWallets := set_add w (subscribedWallets c99),
                                   sessionId := Some sid\<rparr>)"
    using p by (auto split: sum.splits)
  have nth99: "((outs99 @ [out100]) @ [[(connId c, ErrorMessage ''RATE_LIMIT_EXCEEDED''
                  ''Too many messages, please slow down'' True)]]) ! 99 = out100"
    using s99(4) by (simp add: nth_append)
  have nth100: "((outs99 @ [out100]) @ [[(connId c, ErrorMessage ''RATE_LIMIT_EXCEEDED''
                  ''Too many messages, please slow down'' True)]]) ! 100
                = [(connId c, ErrorMessage ''RATE_LIMIT_EXCEEDED''
                                ''Too many messages, please slow down'' True)]"
    using s99(4) by (simp add: nth_append)
  show ?thesis
    unfolding r99 r100 full prod.case nth99 nth100
    using crl99 crl100 processed by simp
qed

theorem rate_limit_100th_accepted_101st_rejected_witness:
  "case receiveSubscribes ''s''
          (replicate 99 (0, None)
           @ [(0, Some \<lparr>wallet = Str sampleWalletLower, sd_sessionId = Absent\<rparr>),
              (0, Some \<lparr>wallet = Str ''0x0000000000000000000000000000000000000000'',
                        sd_sessionId = Absent\<rparr>)])
          Map.empty
          \<lparr>connId = ''c1'', connected = True, subscribedWallets = [], connectedAt = 0,
           lastActivity = 0, sessionId = None\<rparr>
   of (c', mc', outs) \<Rightarrow>
        outs ! 99 = [(''c1'', SubscribeMessage sampleWallet ''s'')]
      \<and> outs ! 100 = [(''c1'', ErrorMessage ''RATE_LIMIT_EXCEEDED''
                                  ''Too many messages, please slow down'' True)]
      \<and> subscribedWallets c' = [sampleWallet] \<and> sessionId c' = Some ''s''"
proof -
  let ?v = "\<lparr>wallet = Str sampleWalletLower, sd_sessionId = Absent\<rparr>"
  let ?z = "\<lparr>wallet = Str ''0x0000000000000000000000000000000000000000'', sd_sessionId = Absent\<rparr>"
  let ?ms = "replicate 99 (0::int, None) @ [(0, Some ?v), (0, Some ?z)]"
  let ?c = "\<lparr>connId = ''c1'', connected = True, subscribedWallets = [], connectedAt = 0,
             lastActivity = 0, sessionId = None\<rparr>"
  have a: "length ?ms = 101" by simp
  have b: "case Map.empty (connId ?c) of None \<Rightarrow> True | Some ri \<Rightarrow> fst (hd ?ms) \<ge> resetTime ri"
    by simp
  have c: "\<forall>m \<in> set ?ms. fst m < fst (hd ?ms) + windowMs" by (auto simp: windowMs_def)
  have d: "connected ?c" by simp
  have t99: "take 99 ?ms = replicate 99 (0, None)" by simp
  have t100: "take 100 ?ms = replicate 99 (0, None) @ [(0, Some ?v)]" by simp
  have n99: "?ms ! 99 = (0, Some ?v)" by (simp add: nth_append)
  have n100: "?ms ! 100 = (0, Some ?z)" by (simp add: nth_append)
  obtain c99 mc99 o99 where
    r99: "receiveSubscribes ''s'' (replicate 99 (0, None)) Map.empty ?c = (c99, mc99, o99)"
    by (metis prod_cases3)
  have k: "subscribedWallets c99 = []" "sessionId c99 = None"
    using receiveSubscribes_no_payload[of "''s''" 99 0 Map.empty ?c] r99 by simp_all
  obtain c100 mc100 o100 where
    r100: "receiveSubscribes ''s'' (replicate 99 (0, None) @ [(0, Some ?v)]) Map.empty ?c
             = (c100, mc100, o100)"
    by (metis prod_cases3)
  obtain c101 mc101 outs where r101: "receiveSubscribes ''s'' ?ms Map.empty ?c = (c101, mc101, outs)"
    by (metis prod_cases3)
  from rate_limit_100th_accepted_101st_rejected[OF a b c d, of "''s''"]
  show ?thesis
    unfolding t99 t100 n99 n100 r99 r100 r101 prod.case fst_conv snd_conv
    by (simp add: validateSubscribeData_sample k set_add_def maxSubscriptions_def)
qed

subsection \<open>Subscription set and score broadcast\<close>

text \<open>
  C1. The code at a valid subscribe message for the all-lower-case address
  \<open>0x5aaeb6053f3e94c9b9a09f33669435e7ef1beaed\<close>: the subscription set stores the
  mixed-case checksum form that \<open>ethers.getAddress\<close> returns, not the lower-case form, and
  a following \<open>broadcastScoreUpdate\<close> for that wallet, which looks the lower-cased address
  up in the set, reaches no connection, whichever spelling of the wallet it is given.
\<close>

theorem subscribe_stores_checksum_case_and_broadcast_misses:
  "(case handleSubscribe 0 ''s'' Map.empty
           \<lparr>connId = ''c1'', connected = True, subscribedWallets = [], connectedAt = 0,
            lastActivity = 0, sessionId = None\<rparr>
           (Some \<lparr>wallet = Str ''0x5aaeb6053f3e94c9b9a09f33669435e7ef1beaed'',
                  sd_sessionId = Absent\<rparr>)
    of (c', mc', out) \<Rightarrow>
        subscribedWallets c' = [''0x5aAeb6053F3E94C9b9A09f33669435E7Ef1BeAed'']
      \<and> out = [(''c1'', SubscribeMessage ''0x5aAeb6053F3E94C9b9A09f33669435E7Ef1BeAed'' ''s'')]
      \<and> broadcastScoreUpdate \<lparr>io = True, connections = [(''c1'', c')], messageCounts = mc'\<rparr>
            ''0x5aaeb6053f3e94c9b9a09f33669435e7ef1beaed'' score previousScore = []
      \<and> broadcastScoreUpdate \<lparr>io = True, connections = [(''c1'', c')], messageCounts = mc'\<rparr>
            ''0x5aAeb6053F3E94C9b9A09f33669435E7Ef1BeAed'' score previousScore = [])"
proof -
  have v: "isValidEthereumAddress ''0x5aaeb6053f3e94c9b9a09f33669435e7ef1beaed''
             = \<lparr>isValid = True, errors = [],
                normalized = Some ''0x5aAeb6053F3E94C9b9A09f33669435E7Ef1BeAed''\<rparr>"
    using isValidEthereumAddress_sample by (simp add: sampleWalletLower_def sampleWallet_def)
  have l: "toLowerCase ''0x5aaeb6053f3e94c9b9a09f33669435e7ef1beaed''
             = ''0x5aaeb6053f3e94c9b9a09f33669435e7ef1beaed''"
          "toLowerCase ''0x5aAeb6053F3E94C9b9A09f33669435E7Ef1BeAed''
             = ''0x5aaeb6053f3e94c9b9a09f33669435e7ef1beaed''"
    using toLowerCase_sample(1,2) by (simp_all add: sampleWalletLower_def sampleWallet_def)
  show ?thesis
    by (simp add: handleSubscribe_def checkRateLimit_def maxMessages_def maxSubscriptions_def
        validateSubscribeData_def v set_add_def set_has_def
        sendMessage_def broadcastScoreUpdate_def l Let_def)
qed

subsection \<open>Scoring\<close>

lemmas eval_defs = extractFeaturesFromEvent_def updateTransactionHistory_def MAX_HISTORY_def Let_def
     truthy_def normalizeValue_def normalizeGasPattern_def sampleEvent_def nineEvents_def sampleWallet_def
     noModel_def set_has_def BLACKLIST_PENALTY_def determineRiskLevel_def roundFixed_def


lemma extractFeatures_no_events:
  assumes "h w = None \<or> h w = Some []"
  shows "extractFeaturesFromEvent nowMs h w [] = (zeroFeatures, h(w \<mapsto> []))"
proof -
  have u: "updateTransactionHistory h w [] = h(w \<mapsto> [])"
    using assms by (auto simp: updateTransactionHistory_def)
  show ?thesis
    by (simp add: extractFeaturesFromEvent_def u Let_def zeroFeatures_def
          normalizeValue_def normalizeGasPattern_def)
qed

lemma extractFeatures_history:
  "snd (extractFeaturesFromEvent nowMs h w es) = updateTransactionHistory h w es"
  by (simp add: extractFeaturesFromEvent_def Let_def)

lemma updateTransactionHistory_other:
  "w' \<noteq> w \<Longrightarrow> updateTransactionHistory h w es w' = h w'"
  by (simp add: updateTransactionHistory_def Let_def)

lemma fallback_zero_address:
  assumes "h zeroAddress = None \<or> h zeroAddress = Some []"
    and "\<not> set_has (blacklist svc) (toLowerCase zeroAddress)"
  shows "reputationScore (fst (calculateFallbackScore nowMs svc h zeroAddress [])) = Num 50"
  using assms(2)
  apply (simp only: calculateFallbackScore_def Let_def split_def
        extractFeatures_no_events[where h=h and w=zeroAddress, OF assms(1)]
        fst_conv snd_conv ScoringResult.select_convs)
  apply (simp only: fallbackScore_def patternRisk_def patternBonus_def Let_def)
  apply (simp add: zeroFeatures_def)
  apply (simp add: roundFixed_def round_def)
  done



lemma noModel_score:
  assumes "model svc = None"
    and "walletAddr \<noteq> zeroAddress"
    and "h zeroAddress = None \<or> h zeroAddress = Some []"
    and "\<not> set_has (blacklist svc) (toLowerCase zeroAddress)"
  shows "map_option (\<lambda>p. (reputationScore (fst p), riskLevel (fst p)))
           (calculateWalletScore nowMs svc h NoFailure walletAddr events)
         = Some (if set_has (blacklist svc) (toLowerCase walletAddr) then (Num 20, CRITICAL)
                 else (Num 50, MEDIUM))"
proof -
  obtain f h1 where e: "extractFeaturesFromEvent nowMs h walletAddr events = (f, h1)"
    by (metis surj_pair)
  have h1: "h1 = updateTransactionHistory h walletAddr events"
    using extractFeatures_history[of nowMs h walletAddr events] e by simp
  have z: "h1 zeroAddress = None \<or> h1 zeroAddress = Some []"
    using assms(2,3) by (simp add: h1 updateTransactionHistory_other)
  have fb: "reputationScore (fst (calculateFallbackScore nowMs svc h1 zeroAddress [])) = Num 50"
    by (rule fallback_zero_address[where h=h1 and svc=svc, OF z assms(4)])
  obtain r0 h2 where c: "calculateFallbackScore nowMs svc h1 zeroAddress [] = (r0, h2)"
    by (metis surj_pair)
  have r0: "reputationScore r0 = Num 50" using fb c by simp
  have p: "getMLPrediction nowMs svc h1 f
            = (\<lparr>mp_score = Num 50, probabilities = [Num (1 / 2), Num (1 / 2)]\<rparr>, h2)"
    by (simp add: getMLPrediction_def fallbackPrediction_def assms(1) c r0 js_minus_def)
  show ?thesis
    apply (simp only: calculateWalletScore_def failure.case e p Let_def split_def fst_conv snd_conv
             option.map ScoringResult.select_convs ModelPrediction.select_convs)
    apply (simp add: BLACKLIST_PENALTY_def determineRiskLevel_def js_ge_def)
    done
qed


lemma features_nine_failed:
  "extractFeaturesFromEvent 1700000000000 Map.empty sampleWallet (nineEvents Failed 1700000000000)
   = (\<lparr>transactionCount = 9, transactionsPerDay = 0, avgTransactionValue = 0,
       maxTransactionValue = 0, minTransactionValue = 0, accountAgeDays = - 19656250,
       daysSinceLastTx = - 19656250, uniqueCounterparties = 1,
       contractInteractions = 0, failedTransactions = 9,
       gasUsagePattern = 0, totalVolume = 0, balance = 0, avgGasPrice = 0,
       valueConcentration = 0, clusteringCoefficient = 0, pageRank = 0\<rparr>,
      [sampleWallet \<mapsto> nineEvents Failed 1700000000000])"
  by (simp add: eval_defs)

lemma fallback_nine_failed:
  "(case calculateFallbackScore 1700000000000 noModel Map.empty sampleWallet
           (nineEvents Failed 1700000000000) of (r, h) \<Rightarrow> (reputationScore r, riskLevel r))
   = (Num 0, CRITICAL)"
  apply (simp only: calculateFallbackScore_def Let_def split_def features_nine_failed
        fst_conv snd_conv ScoringResult.select_convs)
  apply (simp only: fallbackScore_def patternRisk_def patternBonus_def Let_def
        FeatureVector.select_convs)
  apply (simp add: nineEvents_def sampleEvent_def noModel_def set_has_def determineRiskLevel_def
        roundFixed_def round_def js_ge_def)
  done

lemma features_nine_success:
  "extractFeaturesFromEvent 1700000000000 Map.empty sampleWallet (nineEvents Success 1699986280)
   = (\<lparr>transactionCount = 9, transactionsPerDay = 19440 / 343, avgTransactionValue = 0,
       maxTransactionValue = 0, minTransactionValue = 0, accountAgeDays = 343 / 2160,
       daysSinceLastTx = 343 / 2160, uniqueCounterparties = 1,
       contractInteractions = 0, failedTransactions = 0,
       gasUsagePattern = 0, totalVolume = 0, balance = 0, avgGasPrice = 0,
       valueConcentration = 0, clusteringCoefficient = 0, pageRank = 0\<rparr>,
      [sampleWallet \<mapsto> nineEvents Success 1699986280])"
  by (simp add: eval_defs)

lemma fallback_nine_success:
  "(case calculateFallbackScore 1700000000000 noModel Map.empty sampleWallet
           (nineEvents Success 1699986280) of (r, h) \<Rightarrow> (reputationScore r, riskLevel r))
   = (Num 50, HIGH)"
  apply (simp only: calculateFallbackScore_def Let_def split_def features_nine_success
        fst_conv snd_conv ScoringResult.select_convs)
  apply (simp only: fallbackScore_def patternRisk_def patternBonus_def Let_def
        FeatureVector.select_convs)
  apply (simp add: nineEvents_def sampleEvent_def noModel_def set_has_def determineRiskLevel_def
        roundFixed_def round_def BLACKLIST_PENALTY_def js_ge_def)
  done


lemma calculateWalletScore_noModel_parts:
  assumes "model svc = None"
  shows "\<exists>r. calculateWalletScore nowMs svc h NoFailure w es
              = Some (r, updateTransactionHistory (updateTransactionHistory h w es) zeroAddress [])
           \<and> features r = fst (extractFeaturesFromEvent nowMs h w es)
           \<and> flags r = generateFlags svc w (features r) (reputationScore r)"
  using assms
  by (simp add: calculateWalletScore_def getMLPrediction_def fallbackPrediction_def
        calculateFallbackScore_def Let_def split_def extractFeatures_history)

lemma history_after_first:
  "updateTransactionHistory (updateTransactionHistory Map.empty sampleWallet (nineEvents Failed 1700000000000))
      zeroAddress []
   = [sampleWallet \<mapsto> nineEvents Failed 1700000000000, zeroAddress \<mapsto> []]"
  by (simp add: updateTransactionHistory_def MAX_HISTORY_def Let_def nineEvents_def sampleEvent_def
        sampleWallet_def zeroAddress_def)

lemma features_second_run:
  "fst (extractFeaturesFromEvent 1700000000000
         [sampleWallet \<mapsto> nineEvents Failed 1700000000000, zeroAddress \<mapsto> []]
         sampleWallet (nineEvents Failed 1700000000000))
   = \<lparr>transactionCount = 18, transactionsPerDay = 0, avgTransactionValue = 0,
       maxTransactionValue = 0, minTransactionValue = 0, accountAgeDays = - 19656250,
       daysSinceLastTx = - 19656250, uniqueCounterparties = 1,
       contractInteractions = 0, failedTransactions = 18,
       gasUsagePattern = 0, totalVolume = 0, balance = 0, avgGasPrice = 0,
       valueConcentration = 0, clusteringCoefficient = 0, pageRank = 0\<rparr>"
  by (simp add: eval_defs zeroAddress_def)


lemma sampleWallet_facts:
  "sampleWallet \<noteq> zeroAddress" "\<not> set_has (blacklist noModel) (toLowerCase zeroAddress)"
  "\<not> set_has (blacklist noModel) (toLowerCase sampleWallet)" "model noModel = None"
  by (simp_all add: sampleWallet_strings noModel_def set_has_def)

text \<open>
  C6. The code at two scoring runs in succession over the same nine events (the same
  wallet, the same clock reading, timestamps in milliseconds, no model loaded), the second run starting from the
  processor state the first one left: the events of the call are merged into the stored
  history again, so the second feature vector counts 18 transactions and 18 failed ones
  where the first counts 9, and the second result carries the flag \<open>high_failure_rate\<close>
  that the first does not. Only the reputation score (50 on both runs) is the same.
\<close>

theorem rescoring_same_events_changes_features_and_flags:
  "(case calculateWalletScore 1700000000000 noModel Map.empty NoFailure sampleWallet
           (nineEvents Failed 1700000000000) of
      None \<Rightarrow> False
    | Some (r1, h1) \<Rightarrow>
       (case calculateWalletScore 1700000000000 noModel h1 NoFailure sampleWallet
               (nineEvents Failed 1700000000000) of
          None \<Rightarrow> False
        | Some (r2, h2) \<Rightarrow>
            reputationScore r1 = Num 50 \<and> reputationScore r2 = Num 50
          \<and> transactionCount (features r1) = 9 \<and> transactionCount (features r2) = 18
          \<and> failedTransactions (features r1) = 9 \<and> failedTransactions (features r2) = 18
          \<and> flags r1 = [''new_account'']
          \<and> flags r2 = [''high_failure_rate'', ''new_account'']))"
proof -
  let ?E = "nineEvents Failed 1700000000000"
  let ?h1 = "[sampleWallet \<mapsto> ?E, zeroAddress \<mapsto> []]"
  obtain r1 where r1: "calculateWalletScore 1700000000000 noModel Map.empty NoFailure sampleWallet ?E
                        = Some (r1, ?h1)"
    and f1: "features r1 = fst (extractFeaturesFromEvent 1700000000000 Map.empty sampleWallet ?E)"
    and g1: "flags r1 = generateFlags noModel sampleWallet (features r1) (reputationScore r1)"
    using calculateWalletScore_noModel_parts[OF sampleWallet_facts(4), of 1700000000000 Map.empty sampleWallet ?E]
    by (auto simp: history_after_first)
  obtain r2 h2 where r2: "calculateWalletScore 1700000000000 noModel ?h1 NoFailure sampleWallet ?E
                        = Some (r2, h2)"
    and f2: "features r2 = fst (extractFeaturesFromEvent 1700000000000 ?h1 sampleWallet ?E)"
    and g2: "flags r2 = generateFlags noModel sampleWallet (features r2) (reputationScore r2)"
    using calculateWalletScore_noModel_parts[OF sampleWallet_facts(4), of 1700000000000 ?h1 sampleWallet ?E]
    by auto
  have s1: "reputationScore r1 = Num 50"
    using noModel_score[OF sampleWallet_facts(4) sampleWallet_facts(1) _ sampleWallet_facts(2),
            of Map.empty 1700000000000 ?E] r1 sampleWallet_facts(3)
    by simp
  have s2: "reputationScore r2 = Num 50"
    using noModel_score[OF sampleWallet_facts(4) sampleWallet_facts(1) _ sampleWallet_facts(2),
            of ?h1 1700000000000 ?E] r2 sampleWallet_facts(3)
    by simp
  have F1: "features r1 = \<lparr>transactionCount = 9, transactionsPerDay = 0, avgTransactionValue = 0,
       maxTransactionValue = 0, minTransactionValue = 0, accountAgeDays = - 19656250,
       daysSinceLastTx = - 19656250, uniqueCounterparties = 1,
       contractInteractions = 0, failedTransactions = 9,
       gasUsagePattern = 0, totalVolume = 0, balance = 0, avgGasPrice = 0,
       valueConcentration = 0, clusteringCoefficient = 0, pageRank = 0\<rparr>"
    using f1 by (simp add: features_nine_failed)
  have F2: "features r2 = \<lparr>transactionCount = 18, transactionsPerDay = 0, avgTransactionValue = 0,
       maxTransactionValue = 0, minTransactionValue = 0, accountAgeDays = - 19656250,
       daysSinceLastTx = - 19656250, uniqueCounterparties = 1,
       contractInteractions = 0, failedTransactions = 18,
       gasUsagePattern = 0, totalVolume = 0, balance = 0, avgGasPrice = 0,
       valueConcentration = 0, clusteringCoefficient = 0, pageRank = 0\<rparr>"
    using f2 by (simp add: features_second_run)
  have G1: "flags r1 = [''new_account'']"
    using sampleWallet_facts(3) by (simp add: g1 F1 s1 generateFlags_def)
  have G2: "flags r2 = [''high_failure_rate'', ''new_account'']"
    using sampleWallet_facts(3) by (simp add: g2 F2 s2 generateFlags_def)
  show ?thesis
    by (simp add: r1 r2 s1 s2 F1 F2 G1 G2)
qed

text \<open>
  C2. The code without a loaded model: the prediction comes from the rule-based fallback
  run on the zero address with no events, so (when the zero address itself has no stored
  events and is not blacklisted) the score of every other wallet is 50 with risk level
  MEDIUM, or 20 with CRITICAL when the wallet is blacklisted, whatever its events are.
\<close>

theorem noModel_score_ignores_events:
  assumes "model svc = None"
    and "walletAddr \<noteq> zeroAddress"
    and "h zeroAddress = None \<or> h zeroAddress = Some []"
    and "\<not> set_has (blacklist svc) (toLowerCase zeroAddress)"
  shows "map_option (\<lambda>p. (reputationScore (fst p), riskLevel (fst p)))
           (calculateWalletScore nowMs svc h NoFailure walletAddr events)
         = Some (if set_has (blacklist svc) (toLowerCase walletAddr) then (Num 20, CRITICAL)
                 else (Num 50, MEDIUM))"
  using assms by (rule noModel_score)

text \<open>
  At nine failed transactions of the sample wallet the hypotheses hold and the score is
  50 (MEDIUM), as it is for no events at all; the rule-based fallback on the wallet's own
  events gives 0 (CRITICAL).
\<close>

theorem noModel_score_ignores_events_witness:
  "model noModel = None \<and> sampleWallet \<noteq> zeroAddress
   \<and> map_option (\<lambda>p. (reputationScore (fst p), riskLevel (fst p)))
         (calculateWalletScore 1700000000000 noModel Map.empty NoFailure sampleWallet
            (nineEvents Failed 1700000000000)) = Some (Num 50, MEDIUM)
   \<and> map_option (\<lambda>p. (reputationScore (fst p), riskLevel (fst p)))
         (calculateWalletScore 1700000000000 noModel Map.empty NoFailure sampleWallet [])
       = Some (Num 50, MEDIUM)
   \<and> (case calculateFallbackScore 1700000000000 noModel Map.empty sampleWallet
              (nineEvents Failed 1700000000000) of (r, h) \<Rightarrow> (reputationScore r, riskLevel r))
       = (Num 0, CRITICAL)"
  using noModel_score_ignores_events[OF sampleWallet_facts(4) sampleWallet_facts(1) _ sampleWallet_facts(2),
          of Map.empty 1700000000000 "nineEvents Failed 1700000000000"]
        noModel_score_ignores_events[OF sampleWallet_facts(4) sampleWallet_facts(1) _ sampleWallet_facts(2),
          of Map.empty 1700000000000 "[]"]
        sampleWallet_facts fallback_nine_failed
  by simp

subsection \<open>Risk level and reported score\<close>

lemma determineRiskLevel_thresholds:
  "(determineRiskLevel (Num s) = LOW \<longleftrightarrow> s \<ge> 70)
   \<and> (determineRiskLevel (Num s) = MEDIUM \<longleftrightarrow> 50 \<le> s \<and> s < 70)
   \<and> (determineRiskLevel (Num s) = HIGH \<longleftrightarrow> 30 \<le> s \<and> s < 50)
   \<and> (determineRiskLevel (Num s) = CRITICAL \<longleftrightarrow> s < 30)"
  by (simp add: determineRiskLevel_def js_ge_def)

lemma determineRiskLevel_NaN: "determineRiskLevel NaN = CRITICAL"
  by (simp add: determineRiskLevel_def js_ge_def)

lemma clamp_cases:
  "js_max (Num 0) (js_min (Num 100) x) = NaN
   \<or> (\<exists>s. js_max (Num 0) (js_min (Num 100) x) = Num s \<and> 0 \<le> s \<and> s \<le> 100)"
  by (cases x) auto

lemma clamp_NaN: "js_max (Num 0) (js_min (Num 100) x) = NaN \<longleftrightarrow> x = NaN"
  by (cases x) auto

text \<open>
  The result of the \<open>try\<close> block takes its risk level from the score it reports, which is
  a number between 0 and 100 or \<open>NaN\<close>; the error path of the batch reports 50 and MEDIUM.
  The result that the \<open>catch\<close> block returns takes its risk level from the score before
  it is rounded to two decimals: for nine successful transactions, all 13720 seconds old,
  that score is 49.997... (HIGH) and the reported score is 50.
\<close>

lemma try_path_risk_level:
  assumes "calculateWalletScore nowMs svc h NoFailure w es = Some (r, h')"
  shows "riskLevel r = determineRiskLevel (reputationScore r)"
    and "reputationScore r = NaN \<or> (\<exists>s. reputationScore r = Num s \<and> 0 \<le> s \<and> s \<le> 100)"
proof -
  from assms obtain x where x: "reputationScore r = js_max (Num 0) (js_min (Num 100) x)"
      "riskLevel r = determineRiskLevel (js_max (Num 0) (js_min (Num 100) x))"
    by (auto simp: calculateWalletScore_def Let_def split_def)
  show "riskLevel r = determineRiskLevel (reputationScore r)" using x by simp
  show "reputationScore r = NaN \<or> (\<exists>s. reputationScore r = Num s \<and> 0 \<le> s \<and> s \<le> 100)"
    using x(1) clamp_cases[of x] by simp
qed

lemma batch_error_path_result:
  assumes "batchScoreWallet nowMs svc h TryAndFallbackFail w es = (r, h')"
  shows "reputationScore r = Num 50 \<and> riskLevel r = MEDIUM
         \<and> riskLevel r = determineRiskLevel (reputationScore r)"
  using assms
  by (auto simp: batchScoreWallet_def calculateWalletScore_def Let_def split_def
        determineRiskLevel_def js_ge_def)

lemma catch_path_result_rounds_after_level:
  "map_option (\<lambda>p. (reputationScore (fst p), riskLevel (fst p)))
     (calculateWalletScore 1700000000000 noModel Map.empty TryFails sampleWallet
        (nineEvents Success 1699986280)) = Some (Num 50, HIGH)"
  using fallback_nine_success
  by (simp add: calculateWalletScore_def split_def)

lemma nanModel_facts:
  "model nanModel = Some (\<lambda>f. Some [NaN, NaN])" "featureNames nanModel \<noteq> []"
  by (simp_all add: nanModel_def)

text \<open>
  C3. The code with a loaded classifier whose inference run returns two outputs, the
  second of them \<open>NaN\<close>: the score \<open>NaN * 100\<close> passes the clamp
  \<open>Math.max(0, Math.min(100, score))\<close> unchanged, every comparison of
  \<open>determineRiskLevel\<close> is false, and the result has reputation score \<open>NaN\<close> with risk level
  CRITICAL, although the score is not below 30 (nor is it at least 30).
\<close>

theorem nan_output_gives_CRITICAL_without_score_below_30:
  assumes "model svc = Some run" and "featureNames svc \<noteq> []"
    and "run (fst (extractFeaturesFromEvent nowMs h w es)) = Some [p0, NaN]"
  shows "\<exists>r h'. calculateWalletScore nowMs svc h NoFailure w es = Some (r, h')
           \<and> reputationScore r = NaN \<and> riskLevel r = CRITICAL
           \<and> \<not> js_less (reputationScore r) (Num 30) \<and> \<not> js_ge (reputationScore r) (Num 30)"
  using assms
  by (simp add: calculateWalletScore_def getMLPrediction_def Let_def split_def
        determineRiskLevel_def js_ge_def)

theorem nan_output_gives_CRITICAL_without_score_below_30_witness:
  "map_option (\<lambda>p. (reputationScore (fst p), riskLevel (fst p)))
     (calculateWalletScore 1700000000000 nanModel Map.empty NoFailure sampleWallet [])
   = Some (NaN, CRITICAL)
   \<and> \<not> js_less NaN (Num 30)"
  using nan_output_gives_CRITICAL_without_score_below_30[where svc=nanModel
          and run="\<lambda>f. Some [NaN, NaN]" and nowMs=1700000000000 and h=Map.empty
          and w=sampleWallet and es="[]" and ?p0.0=NaN]
        nanModel_facts
  by auto
subsection \<open>Event buffer\<close>

lemma bufferEvent_buffer:
  "eventBuffer (bufferEvent co w e) w =
     Some (let b = (case eventBuffer co w of None \<Rightarrow> [] | Some b \<Rightarrow> b) @ [e]
           in if length b > 1000 then drop (length b - 500) b else b)"
  by (simp add: bufferEvent_def Let_def)

text \<open>
  C4, as the code has it. The buffer of a wallet never holds more than 1000 events: an
  append to a buffer of fewer than 1000 events adds the event, and an append to a buffer
  of exactly 1000 events cuts the 1001 events to the newest 500 (the 501 oldest are
  evicted).
\<close>

theorem bufferEvent_at_cap_keeps_newest_500:
  assumes "eventBuffer co w = Some b" and "length b \<le> 1000"
  shows "\<exists>b'. eventBuffer (bufferEvent co w e) w = Some b'
           \<and> length b' \<le> 1000
           \<and> (length b < 1000 \<longrightarrow> b' = b @ [e])
           \<and> (length b = 1000 \<longrightarrow> b' = drop 501 (b @ [e]) \<and> length b' = 500)"
  using assms by (auto simp: bufferEvent_buffer Let_def)

theorem bufferEvent_at_cap_keeps_newest_500_witness:
  "length (replicate 1000 (sampleEvent Success 0 ''0x01'')) \<le> 1000
   \<and> eventBuffer (bufferEvent \<lparr>monitoredWallets = Map.empty,
                                eventBuffer = [sampleWallet \<mapsto> replicate 1000 (sampleEvent Success 0 ''0x01'')]\<rparr>
                     sampleWallet (sampleEvent Success 1 ''0x02'')) sampleWallet
       = Some (replicate 499 (sampleEvent Success 0 ''0x01'') @ [sampleEvent Success 1 ''0x02''])"
  using bufferEvent_at_cap_keeps_newest_500[of
          "\<lparr>monitoredWallets = Map.empty,
            eventBuffer = [sampleWallet \<mapsto> replicate 1000 (sampleEvent Success 0 ''0x01'')]\<rparr>"
          sampleWallet "replicate 1000 (sampleEvent Success 0 ''0x01'')" "sampleEvent Success 1 ''0x02''"]
  by auto

text \<open>
  C4 as claimed fails: after one append to a buffer of 1000 events the buffer holds 500
  events, not the newest 1000.
\<close>

theorem bufferEvent_at_cap_evicts_501:
  "length (the (eventBuffer (bufferEvent \<lparr>monitoredWallets = Map.empty,
                                eventBuffer = [sampleWallet \<mapsto> replicate 1000 (sampleEvent Success 0 ''0x01'')]\<rparr>
                     sampleWallet (sampleEvent Success 1 ''0x02'')) sampleWallet)) = 500
   \<and> the (eventBuffer (bufferEvent \<lparr>monitoredWallets = Map.empty,
                                eventBuffer = [sampleWallet \<mapsto> replicate 1000 (sampleEvent Success 0 ''0x01'')]\<rparr>
                     sampleWallet (sampleEvent Success 1 ''0x02'')) sampleWallet)
       \<noteq> drop 1 (replicate 1000 (sampleEvent Success 0 ''0x01'') @ [sampleEvent Success 1 ''0x02''])"
proof -
  have "length (drop 1 (replicate 1000 (sampleEvent Success 0 ''0x01'') @ [sampleEvent Success 1 ''0x02''])) = 1000"
    by simp
  then show ?thesis
    by (auto simp: bufferEvent_buffer Let_def)
qed

subsection \<open>Flag registry client\<close>

lemma flagWalletTry_cases:
  "(\<exists>e calls. flagWalletTry contract w level score reason = (Inl e, calls))
   \<or> (\<exists>r calls. flagWalletTry contract w level score reason = (Inr r, calls))"
  by (metis surj_pair sum.exhaust_sel)

lemma flagWalletTry_returns:
  assumes "flagWalletTry contract w level score reason = (Inr r, calls)"
  shows "(success r \<longrightarrow> transactionHash r \<noteq> None \<and> receipt r \<noteq> None \<and> error r = None)
         \<and> (\<not> success r \<longrightarrow> error r \<noteq> None)
         \<and> validateFlaggingInputs w level score reason = None \<and> contract \<noteq> None"
  using assms
  by (auto simp: flagWalletTry_def Let_def
           split: option.splits sendOutcome.splits waitOutcome.splits if_splits)

lemma flagWalletTry_throws:
  assumes "flagWalletTry contract w level score reason = (Inl e, calls)"
  shows "(validateFlaggingInputs w level score reason \<noteq> None \<longrightarrow> calls = [])
         \<and> (contract = None \<longrightarrow> calls = [])"
  using assms
  by (auto simp: flagWalletTry_def Let_def
           split: option.splits sendOutcome.splits waitOutcome.splits if_splits)

text \<open>
  C10. For every input \<open>flagWallet\<close> returns a result and throws nothing: a success result
  carries the transaction hash and the receipt, every other result carries an error
  message; when the validation of the inputs fails, or no contract is initialized, the
  result is a failure and no contract call was made.
\<close>

theorem flagWallet_never_throws:
  "\<exists>r calls. flagWallet contract w level score reasonArg = (Inr r, calls)
     \<and> (success r \<longrightarrow> transactionHash r \<noteq> None \<and> receipt r \<noteq> None \<and> error r = None)
     \<and> (\<not> success r \<longrightarrow> error r \<noteq> None)
     \<and> (validateFlaggingInputs w level score
            (case reasonArg of None \<Rightarrow> ''Suspicious activity detected'' | Some x \<Rightarrow> x) \<noteq> None
          \<longrightarrow> \<not> success r \<and> calls = [])
     \<and> (contract = None \<longrightarrow> \<not> success r \<and> calls = [])"
proof -
  let ?reason = "case reasonArg of None \<Rightarrow> ''Suspicious activity detected'' | Some x \<Rightarrow> x"
  from flagWalletTry_cases[of contract w level score ?reason]
  show ?thesis
  proof
    assume "\<exists>e calls. flagWalletTry contract w level score ?reason = (Inl e, calls)"
    then obtain e calls where t: "flagWalletTry contract w level score ?reason = (Inl e, calls)"
      by blast
    from flagWalletTry_throws[OF t] t show ?thesis
      by (simp add: flagWallet_def)
  next
    assume "\<exists>r calls. flagWalletTry contract w level score ?reason = (Inr r, calls)"
    then obtain r calls where t: "flagWalletTry contract w level score ?reason = (Inr r, calls)"
      by blast
    from flagWalletTry_returns[OF t] t show ?thesis
      by (auto simp: flagWallet_def)
  qed
qed

lemma validateFlaggingInputs_sample:
  "validateFlaggingInputs sampleWalletLower ''critical'' (Num 20) ''duplicate'' = None"
  by (simp add: validateFlaggingInputs_def isValidEthereumAddress_sample isValidRiskLevel_def
        toLowerCase_sample isValidScore_def)

theorem flagWallet_never_throws_witness:
  "flagWallet None [] ''low'' NaN None
     = (Inr \<lparr>success = False, transactionHash = None, receipt = None,
             error = Some ''Invalid wallet address: Address is required''\<rparr>, [])
   \<and> flagWallet (Some acceptingContract) sampleWalletLower ''critical'' (Num 20) (Some ''duplicate'')
     = (Inr \<lparr>success = True, transactionHash = Some ''0xabc'',
             receipt = Some \<lparr>cr_hash = ''0xabc'', cr_status = True, cr_blockNumber = 7\<rparr>,
             error = None\<rparr>,
        [FlagWalletTx sampleWalletLower (Some 3) (Num 20) ''duplicate'' 500000])"
proof -
  have a: "flagWallet None [] ''low'' NaN None
     = (Inr \<lparr>success = False, transactionHash = None, receipt = None,
             error = Some ''Invalid wallet address: Address is required''\<rparr>, [])"
    using flagWallet_never_throws[of None "[]" "''low''" NaN None]
    by (simp add: flagWallet_def flagWalletTry_def validateFlaggingInputs_def
          isValidEthereumAddress_def)
  have b: "flagWallet (Some acceptingContract) sampleWalletLower ''critical'' (Num 20) (Some ''duplicate'')
     = (Inr \<lparr>success = True, transactionHash = Some ''0xabc'',
             receipt = Some \<lparr>cr_hash = ''0xabc'', cr_status = True, cr_blockNumber = 7\<rparr>,
             error = None\<rparr>,
        [FlagWalletTx sampleWalletLower (Some 3) (Num 20) ''duplicate'' 500000])"
    by (simp add: flagWallet_def flagWalletTry_def validateFlaggingInputs_sample
          acceptingContract_def riskLevelToContractValue_def GAS_LIMIT_def formatReceipt_def)
  from a b show ?thesis by simp
qed

text \<open>
  C7, as the code has it. When the contract turns the flag call down (the call throws,
  the wait for the receipt throws, or the receipt is missing or not of status 1, as for a
  wallet that already holds a flag), \<open>flagWallet\<close> throws nothing and returns a failure
  result that carries the rejection: the message of what was thrown, or "Transaction
  reverted" for a missing or failed receipt. The rejection is not fatal, and it is not
  reported as a success.
\<close>

theorem flagWallet_rejection_is_failure_result:
  assumes "validateFlaggingInputs w level score reason = None"
    and "rejected (c_flagWallet c w (riskLevelToContractValue level) score reason GAS_LIMIT)"
  shows "\<exists>r. flagWallet (Some c) w level score (Some reason)
               = (Inr r, [FlagWalletTx w (riskLevelToContractValue level) score reason GAS_LIMIT])
             \<and> \<not> success r \<and> receipt r = None \<and> error r \<noteq> None
             \<and> error r = Some (case c_flagWallet c w (riskLevelToContractValue level) score
                                        reason GAS_LIMIT of
                                   SendThrows e \<Rightarrow> formatError e
                                 | Sent h (WaitThrows e) \<Rightarrow> formatError e
                                 | Sent h other \<Rightarrow> ''Transaction reverted'')"
proof (cases "c_flagWallet c w (riskLevelToContractValue level) score reason GAS_LIMIT")
  case (SendThrows e)
  then show ?thesis using assms(1) by (simp add: flagWallet_def flagWalletTry_def)
next
  case (Sent h wo)
  then show ?thesis using assms
    by (cases wo) (auto simp: flagWallet_def flagWalletTry_def)
qed

theorem flagWallet_rejection_is_failure_result_witness:
  "validateFlaggingInputs sampleWalletLower ''critical'' (Num 20) ''duplicate'' = None
   \<and> rejected (c_flagWallet alreadyFlaggedContract sampleWalletLower
                 (riskLevelToContractValue ''critical'') (Num 20) ''duplicate'' GAS_LIMIT)
   \<and> \<not> success (projr (fst (flagWallet (Some alreadyFlaggedContract) sampleWalletLower
                                ''critical'' (Num 20) (Some ''duplicate''))))
   \<and> error (projr (fst (flagWallet (Some alreadyFlaggedContract) sampleWalletLower
                            ''critical'' (Num 20) (Some ''duplicate''))))
       = Some ''execution reverted: WalletFlagger: wallet already flagged''"
  using flagWallet_rejection_is_failure_result[of sampleWalletLower "''critical''" "Num 20"
          "''duplicate''" alreadyFlaggedContract]
        validateFlaggingInputs_sample
  by (auto simp: alreadyFlaggedContract_def)

text \<open>
  C7 as claimed fails: for a contract that rejects the call with the revert reason of a
  duplicate flag, the result of \<open>flagWallet\<close> is a failure result.
\<close>

theorem flagWallet_already_flagged_fails:
  "fst (flagWallet (Some alreadyFlaggedContract) sampleWalletLower ''critical'' (Num 20)
          (Some ''duplicate''))
     = Inr \<lparr>success = False, transactionHash = None, receipt = None,
            error = Some ''execution reverted: WalletFlagger: wallet already flagged''\<rparr>"
  by (simp add: flagWallet_def flagWalletTry_def validateFlaggingInputs_sample
        alreadyFlaggedContract_def)

subsection \<open>Flagging rule of the coordinator\<close>

lemma checkAndFlagWallet_flag:
  "list_ex isFlagWallet (checkAndFlagWallet contract w s es)
     \<longleftrightarrow> (js_less (reputationScore s) (Num 40) \<and> riskLevel s = CRITICAL
          \<and> isWalletFlagged contract w = Inr False)"
  by (auto simp: checkAndFlagWallet_def FLAGGING_THRESHOLD_def Let_def split_def
           split: sum.splits)

lemma checkAndFlagWallet_already_flagged:
  "isWalletFlagged contract w = Inr True \<Longrightarrow> checkAndFlagWallet contract w s es = []"
  by (simp add: checkAndFlagWallet_def)

lemma calculateAndUpdateScore_calls:
  assumes "calculateAndUpdateScore co w es outcome = (r, co', calls)"
  shows "\<not> list_ex isFlagWallet calls \<and> \<not> list_ex isContractCall calls
         \<and> \<not> list_ex isBroadcastWalletFlagged calls"
  using assms
  by (auto simp: calculateAndUpdateScore_def Let_def list_ex_iff
           split: option.splits if_splits)

lemma calculateAndUpdateScore_result:
  assumes "monitoredWallets co w = Some m"
  shows "fst (calculateAndUpdateScore co w es (Some s)) = Some s"
  using assms by (simp add: calculateAndUpdateScore_def Let_def)

text \<open>
  The transaction itself, \<open>contract.flagWallet\<close>, is sent when moreover the flag registry
  client accepts the arguments of the call.
\<close>

lemma checkAndFlagWallet_contract_call:
  "list_ex isContractCall (checkAndFlagWallet contract w s es)
     \<longleftrightarrow> (js_less (reputationScore s) (Num 40) \<and> riskLevel s = CRITICAL
          \<and> isWalletFlagged contract w = Inr False
          \<and> validateFlaggingInputs w (riskLevelString (riskLevel s)) (reputationScore s)
               (if explanation s \<noteq> [] then explanation s else ''Critical risk score detected'')
              = None)"
proof -
  have c: "isWalletFlagged contract w = Inr False \<Longrightarrow> contract \<noteq> None"
    by (auto simp: isWalletFlagged_def split: option.splits)
  have f: "snd (flagWallet contract w level score (Some reason)) = []
             \<longleftrightarrow> \<not> (validateFlaggingInputs w level score reason = None \<and> contract \<noteq> None)"
    for level score reason
    by (auto simp: flagWallet_def flagWalletTry_def Let_def
             split: option.splits sendOutcome.splits waitOutcome.splits sum.splits prod.splits)
  have l: "\<And>xs ys. list_ex isContractCall (map ContractCall xs @ ys)
                      \<longleftrightarrow> xs \<noteq> [] \<or> list_ex isContractCall ys"
  proof -
    fix xs :: "contractCall list" and ys
    show "list_ex isContractCall (map ContractCall xs @ ys)
            \<longleftrightarrow> xs \<noteq> [] \<or> list_ex isContractCall ys"
      by (cases xs) (auto simp: list_ex_iff)
  qed
  have l2: "\<And>xs. list_ex isContractCall (map ContractCall xs) \<longleftrightarrow> xs \<noteq> []"
  proof -
    fix xs :: "contractCall list"
    show "list_ex isContractCall (map ContractCall xs) \<longleftrightarrow> xs \<noteq> []"
      by (cases xs) (auto simp: list_ex_iff)
  qed
  have n: "\<And>r. \<not> list_ex isContractCall
                   (case r of Inl e \<Rightarrow> []
                    | Inr res \<Rightarrow> if success res
                                then [BroadcastWalletFlagged w (riskLevel s) (reputationScore s)
                                        (transactionHash res)] else [])"
    by (auto split: sum.splits)
  show ?thesis
    using c
    by (auto simp: checkAndFlagWallet_def FLAGGING_THRESHOLD_def Let_def split_def l l2 n f
             split: sum.splits)
qed

text \<open>
  C5. For a wallet with buffered events and a monitor, processed in a batch step with the
  scoring result \<open>s\<close>: \<open>contractService.flagWallet\<close> is called if and only if the
  reputation score of \<open>s\<close> is below 40 (as the language compares numbers), its risk level
  is CRITICAL and \<open>isWalletFlagged\<close> answers false. When \<open>isWalletFlagged\<close> answers true there is no flag call, no contract
  call and no flagged broadcast.
\<close>

theorem batch_flags_iff_critical_and_not_flagged:
  assumes "eventBuffer co w = Some es" and "es \<noteq> []" and "monitoredWallets co w = Some m"
  shows "(list_ex isFlagWallet (snd (processBufferedWallet contract co w (Some s)))
            \<longleftrightarrow> (js_less (reputationScore s) (Num 40) \<and> riskLevel s = CRITICAL
                 \<and> isWalletFlagged contract w = Inr False))
       \<and> (isWalletFlagged contract w = Inr True \<longrightarrow>
            \<not> list_ex isFlagWallet (snd (processBufferedWallet contract co w (Some s)))
          \<and> \<not> list_ex isContractCall (snd (processBufferedWallet contract co w (Some s)))
          \<and> \<not> list_ex isBroadcastWalletFlagged (snd (processBufferedWallet contract co w (Some s))))"
proof -
  obtain r co1 calls where c: "calculateAndUpdateScore co w es (Some s) = (r, co1, calls)"
    by (metis prod_cases3)
  have r: "r = Some s" using calculateAndUpdateScore_result[OF assms(3), of es s] c by simp
  have p: "snd (processBufferedWallet contract co w (Some s))
             = calls @ checkAndFlagWallet contract w s es
               @ [BroadcastScoreUpdate w (Some s) (case monitoredWallets co1 w of None \<Rightarrow> None
                                                    | Some m \<Rightarrow> lastScore m)]"
    using assms(1,2) by (simp add: processBufferedWallet_def c r)
  show ?thesis
    using calculateAndUpdateScore_calls[OF c]
    by (auto simp: p checkAndFlagWallet_flag checkAndFlagWallet_already_flagged)
qed

theorem batch_flags_iff_critical_and_not_flagged_witness:
  "eventBuffer \<lparr>monitoredWallets = [sampleWallet \<mapsto> sampleMonitor],
                eventBuffer = [sampleWallet \<mapsto> [sampleEvent Failed 0 ''0x01'']]\<rparr> sampleWallet
     = Some [sampleEvent Failed 0 ''0x01'']
   \<and> list_ex isFlagWallet (snd (processBufferedWallet (Some acceptingContract)
         \<lparr>monitoredWallets = [sampleWallet \<mapsto> sampleMonitor],
          eventBuffer = [sampleWallet \<mapsto> [sampleEvent Failed 0 ''0x01'']]\<rparr>
         sampleWallet (Some criticalScore)))
   \<and> \<not> list_ex isFlagWallet (snd (processBufferedWallet (Some alreadyFlaggedContract)
         \<lparr>monitoredWallets = [sampleWallet \<mapsto> sampleMonitor],
          eventBuffer = [sampleWallet \<mapsto> [sampleEvent Failed 0 ''0x01'']]\<rparr>
         sampleWallet (Some criticalScore)))"
  using batch_flags_iff_critical_and_not_flagged[of
          "\<lparr>monitoredWallets = [sampleWallet \<mapsto> sampleMonitor],
            eventBuffer = [sampleWallet \<mapsto> [sampleEvent Failed 0 ''0x01'']]\<rparr>"
          sampleWallet "[sampleEvent Failed 0 ''0x01'']" sampleMonitor
          "Some acceptingContract" criticalScore]
        batch_flags_iff_critical_and_not_flagged[of
          "\<lparr>monitoredWallets = [sampleWallet \<mapsto> sampleMonitor],
            eventBuffer = [sampleWallet \<mapsto> [sampleEvent Failed 0 ''0x01'']]\<rparr>"
          sampleWallet "[sampleEvent Failed 0 ''0x01'']" sampleMonitor
          "Some alreadyFlaggedContract" criticalScore]
  by (simp add: isWalletFlagged_def acceptingContract_def alreadyFlaggedContract_def
        criticalScore_def)

subsection \<open>Monitors stay active\<close>

lemma calculateAndUpdateScore_active:
  assumes "allActive co" "calculateAndUpdateScore co w es outcome = (r, co', calls)"
  shows "allActive co'"
  using assms
  by (auto simp: calculateAndUpdateScore_def allActive_def Let_def split: option.splits if_splits)

lemma bufferEvent_active: "allActive co \<Longrightarrow> allActive (bufferEvent co w e)"
  by (simp add: bufferEvent_def allActive_def Let_def)

lemma alertBuffer_active: "allActive co \<Longrightarrow> allActive (alertBuffer hubUp now co w)"
  by (simp add: alertBuffer_def allActive_def split: option.splits)

lemma initialScoring_active:
  assumes "allActive co" "initialScoring hubUp now co w chain o1 o2 = (r, co', calls)"
  shows "allActive co'"
proof (cases chain)
  case ChainFails
  then show ?thesis
    using assms calculateAndUpdateScore_active[OF assms(1)] by (simp add: initialScoring_def)
next
  case NoTransactions
  then show ?thesis
    using assms calculateAndUpdateScore_active[OF assms(1)] by (simp add: initialScoring_def)
next
  case (LogsFail basic)
  then show ?thesis
    using assms calculateAndUpdateScore_active[OF assms(1)] by (simp add: initialScoring_def)
next
  case (Logs es basic)
  show ?thesis
  proof (cases "es = []")
    case True
    then show ?thesis
      using assms Logs calculateAndUpdateScore_active[OF assms(1)] by (simp add: initialScoring_def)
  next
    case False
    obtain s1 co1 c1 where a: "calculateAndUpdateScore co w es o1 = (s1, co1, c1)"
      by (metis prod_cases3)
    have a1: "allActive co1" by (rule calculateAndUpdateScore_active[OF assms(1) a])
    show ?thesis
    proof (cases s1)
      case (Some s)
      then have "co' = co1" using assms(2) Logs False a by (simp add: initialScoring_def Let_def)
      then show ?thesis using a1 by simp
    next
      case None
      then obtain es3 c2 where b: "calculateAndUpdateScore co1 w es3 o2 = (r, co', c2)"
        using assms(2) Logs False a
        by (auto simp: initialScoring_def Let_def split: prod.splits)
      then show ?thesis using calculateAndUpdateScore_active[OF a1 b] by simp
    qed
  qed
qed

lemma startMonitoringWallet_active:
  assumes "allActive co"
    and "startMonitoringWallet hubUp now co w cfg chain o1 o2 = (reply, co', calls)"
  shows "allActive co'"
proof (cases "isValid (isValidEthereumAddress w)")
  case False
  then show ?thesis using assms by (simp add: startMonitoringWallet_def Let_def)
next
  case True
  show ?thesis
  proof (cases "normalized (isValidEthereumAddress w)")
    case None
    then show ?thesis using assms True by (simp add: startMonitoringWallet_def Let_def)
  next
    case (Some n)
    show ?thesis
    proof (cases "monitoredWallets co n")
      case (Some m)
      then show ?thesis using assms True \<open>normalized (isValidEthereumAddress w) = Some n\<close>
        by (simp add: startMonitoringWallet_def Let_def)
    next
      case None
      let ?mon = "\<lparr>mon_walletAddress = n, startedAt = now, mon_lastActivity = now, eventCount = 0,
                    lastScore = None, isActive = True, config = mergeConfig cfg\<rparr>"
      let ?co1 = "co\<lparr>monitoredWallets := (monitoredWallets co)(n \<mapsto> ?mon)\<rparr>"
      have a1: "allActive ?co1" using assms(1) by (simp add: allActive_def)
      obtain s2 co2 c2 where b: "initialScoring hubUp now ?co1 n chain o1 o2 = (s2, co2, c2)"
        by (metis prod_cases3)
      have "co' = co2"
        using assms(2) True None \<open>normalized (isValidEthereumAddress w) = Some n\<close> b
        by (simp add: startMonitoringWallet_def Let_def)
      with initialScoring_active[OF a1 b] show ?thesis by simp
    qed
  qed
qed

lemma stopMonitoringWallet_active:
  assumes "allActive co" "stopMonitoringWallet co w u = (ok, co', calls)"
  shows "allActive co'"
  using assms
  by (auto simp: stopMonitoringWallet_def allActive_def Let_def split: option.splits if_splits)

lemma handleWalletEvent_active:
  assumes "allActive co" "handleWalletEvent hubUp now co w e outcome = (co', calls)"
  shows "allActive co'"
proof (cases "dropsEvent co w")
  case True
  then show ?thesis using assms by (simp add: handleWalletEvent_def)
next
  case False
  then obtain m where m: "monitoredWallets co w = Some m" "isActive m"
    by (auto simp: dropsEvent_def split: option.splits)
  let ?co1 = "co\<lparr>monitoredWallets := (monitoredWallets co)(w \<mapsto>
                 m\<lparr>mon_lastActivity := now, eventCount := eventCount m + 1\<rparr>)\<rparr>"
  have a1: "allActive ?co1" using assms(1) m by (simp add: allActive_def)
  obtain s2 co2 c2 where
    b: "calculateAndUpdateScore ?co1 w
          (e # (case eventBuffer ?co1 w of None \<Rightarrow> [] | Some b \<Rightarrow> b)) outcome = (s2, co2, c2)"
    by (metis prod_cases3)
  have a2: "allActive co2" by (rule calculateAndUpdateScore_active[OF a1 b])
  show ?thesis
  proof (cases s2)
    case None
    then have "co' = bufferEvent co2 w e"
      using assms(2) False m b by (simp add: handleWalletEvent_def Let_def)
    with bufferEvent_active[OF a2] show ?thesis by simp
  next
    case (Some s)
    then have "co' = bufferEvent (alertBuffer hubUp now co2 w) w (alertTimestamp hubUp now e)"
      using assms(2) False m b by (simp add: handleWalletEvent_def Let_def)
    with bufferEvent_active[OF alertBuffer_active[OF a2]] show ?thesis by simp
  qed
qed

lemma processBufferedWallet_active:
  assumes "allActive co" "processBufferedWallet contract co w outcome = (co', calls)"
  shows "allActive co'"
proof (cases "eventBuffer co w")
  case None
  then show ?thesis using assms by (simp add: processBufferedWallet_def)
next
  case (Some es)
  show ?thesis
  proof (cases "es = []")
    case True
    then show ?thesis using assms Some by (simp add: processBufferedWallet_def)
  next
    case False
    obtain s1 co1 c1 where a: "calculateAndUpdateScore co w es outcome = (s1, co1, c1)"
      by (metis prod_cases3)
    have "co' = co1\<lparr>eventBuffer := (eventBuffer co1)(w \<mapsto> [])\<rparr>"
      using assms(2) Some False a by (simp add: processBufferedWallet_def Let_def)
    with calculateAndUpdateScore_active[OF assms(1) a] show ?thesis by (simp add: allActive_def)
  qed
qed

lemma processBufferedEvents_active:
  assumes "allActive co" "processBufferedEvents contract co ws = (co', calls)"
  shows "allActive co'"
  using assms
proof (induction ws arbitrary: co co' calls)
  case Nil
  then show ?case by simp
next
  case (Cons x ws)
  obtain w outcome where x: "x = (w, outcome)" by (cases x)
  obtain co1 c1 where a: "processBufferedWallet contract co w outcome = (co1, c1)"
    by (metis surj_pair)
  obtain co2 c2 where b: "processBufferedEvents contract co1 ws = (co2, c2)"
    by (metis surj_pair)
  from Cons.IH[OF processBufferedWallet_active[OF Cons.prems(1) a] b] Cons.prems(2)
  show ?case by (simp add: x a b)
qed

lemma recalculateScore_active:
  assumes "allActive co" "recalculateScore hubUp now co w outcome = Inr (r, co', calls)"
  shows "allActive co'"
proof -
  from assms(2) obtain n es s1 co1 where
    c: "calculateAndUpdateScore co n es outcome = (s1, co1, calls)"
    and co': "co' = (case s1 of None \<Rightarrow> co1 | Some s \<Rightarrow> alertBuffer hubUp now co1 n)"
    by (auto simp: recalculateScore_def Let_def split: option.splits if_splits prod.splits)
  have "allActive co1" by (rule calculateAndUpdateScore_active[OF assms(1) c])
  then show ?thesis using co' alertBuffer_active by (cases s1) simp_all
qed

lemma reachable_allActive: "reachable co \<Longrightarrow> allActive co"
proof (induction rule: reachable.induct)
  case initial
  then show ?case by (simp add: allActive_def)
next
  case start
  then show ?case using startMonitoringWallet_active by blast
next
  case stop
  then show ?case using stopMonitoringWallet_active by blast
next
  case event
  then show ?case using handleWalletEvent_active by blast
next
  case batch
  then show ?case using processBufferedEvents_active by blast
next
  case rescore
  then show ?case using recalculateScore_active by blast
next
  case clean
  then show ?case by (simp add: cleanup_def allActive_def)
qed

text \<open>
  C9. In every state the coordinator reaches, every monitor in \<open>monitoredWallets\<close> is
  active; so the guard of the event intake drops an event exactly when the wallet has no
  monitor, and never for a monitor that is present but inactive.
\<close>

theorem monitors_always_active:
  assumes "reachable co"
  shows "(\<forall>w m. monitoredWallets co w = Some m \<longrightarrow> isActive m)
         \<and> (\<forall>w. dropsEvent co w \<longleftrightarrow> monitoredWallets co w = None)"
  using reachable_allActive[OF assms]
  by (auto simp: allActive_def dropsEvent_def split: option.splits)

theorem monitors_always_active_witness:
  "reachable \<lparr>monitoredWallets = [sampleWallet \<mapsto> sampleMonitor\<lparr>lastScore := Some criticalScore\<rparr>],
              eventBuffer = Map.empty\<rparr>
   \<and> isActive (sampleMonitor\<lparr>lastScore := Some criticalScore\<rparr>)
   \<and> \<not> dropsEvent \<lparr>monitoredWallets = [sampleWallet \<mapsto> sampleMonitor\<lparr>lastScore := Some criticalScore\<rparr>],
                      eventBuffer = Map.empty\<rparr> sampleWallet"
proof -
  let ?co = "\<lparr>monitoredWallets = [sampleWallet \<mapsto> sampleMonitor\<lparr>lastScore := Some criticalScore\<rparr>],
              eventBuffer = Map.empty\<rparr>"
  obtain reply co' calls where
    s: "startMonitoringWallet True 0 \<lparr>monitoredWallets = Map.empty, eventBuffer = Map.empty\<rparr>
          sampleWalletLower None NoTransactions (Some criticalScore) None = (reply, co', calls)"
    by (metis prod_cases3)
  have "co' = ?co"
    using s
    by (auto simp: startMonitoringWallet_def isValidEthereumAddress_sample Let_def
          initialScoring_def calculateAndUpdateScore_def sampleMonitor_def mergeConfig_def)
  with reachable.start[OF reachable.initial s]
  have r: "reachable ?co" by simp
  from monitors_always_active[OF r] r show ?thesis
    by (simp add: sampleMonitor_def)
qed


end
